theory Spec2Isabelle
  imports Main "HOL-Library.Word"
begin

section \<open>Drive classification and partition tables of the recovery tool\<close>

text \<open>
  A shallow embedding of \<^verbatim>\<open>src/DriveHandler.cpp\<close>. The object's members are the fields
  of the record \<open>DriveHandler\<close>; every member function takes the object and returns the
  updated object together with either its result or the exception it throws. An exception
  does not roll the object back, so the object is returned in both cases. Device I/O and
  the calls into the FAT32 recovery engine are logged in the field \<open>trace\<close>.
\<close>

subsection \<open>Machine integers, bytes, strings\<close>

type_synonym uint8 = "8 word"
type_synonym uint16 = "16 word"
type_synonym uint32 = "32 word"
type_synonym uint64 = "64 word"

text \<open>Little-endian decoding of a field of a packed on-disk structure.\<close>

fun le_word :: "uint8 list \<Rightarrow> 'a::len word" where
  "le_word [] = 0"
| "le_word (b # bs) = ucast b + 256 * le_word bs"

definition slice :: "nat \<Rightarrow> nat \<Rightarrow> 'a list \<Rightarrow> 'a list" where
  "slice off n bs = take n (drop off bs)"

text \<open>The bytes of a narrow string literal.\<close>

definition ascii :: "string \<Rightarrow> uint8 list" where
  "ascii cs = map (\<lambda>c. of_nat (of_char c)) cs"

subsection \<open>Enumerations and errors\<close>

datatype DriveType = UNKNOWN_DRIVE | LOGICAL_DRIVE | PHYSICAL_DRIVE

datatype PartitionScheme = UNKNOWN_SCHEME | MBR_SCHEME | GPT_SCHEME

datatype FilesystemType = FAT32_TYPE | NTFS_TYPE | EXFAT_TYPE | EXT4_TYPE | UNKNOWN_TYPE

text \<open>
  \<open>RuntimeError\<close> is a thrown \<^verbatim>\<open>std::runtime_error\<close> with its message. The other
  constructors are the places where the C++ has no defined result: a call through the null
  \<^verbatim>\<open>sectorReader\<close>, an integer division by zero, a \<^verbatim>\<open>memcpy\<close> that writes past
  its destination. \<open>RecoveryFailure\<close> is whatever the FAT32 recovery engine throws.
\<close>

datatype error =
    RuntimeError string
  | NullDereference
  | DivideByZero
  | BufferOverrun
  | RecoveryFailure

subsection \<open>On-disk structures\<close>

record Config =
  drivePath :: string
  inputFolder :: string
  outputFolder :: string
  logFolder :: string
  logFile :: string
  targetCluster :: uint32
  targetFileSize :: uint32
  createFileDataLog :: bool
  recover :: bool
  analyze :: bool

record MBRPartitionEntry =
  BootIndicator :: uint8
  StartHead :: uint8
  StartSector :: uint8
  StartCylinder :: uint8
  Type :: uint8
  EndHead :: uint8
  EndSector :: uint8
  EndCylinder :: uint8
  StartLBA :: uint32
  TotalSectors :: uint32

record MBRHeader =
  bootCode :: "uint8 list"
  PartitionTable :: "MBRPartitionEntry list"
  signature :: uint16

record GPTHeader =
  Signature :: "uint8 list"
  Revision :: uint32
  HeaderSize :: uint32
  HeaderCRC32 :: uint32
  CurrentLBA :: uint64
  BackupLBA :: uint64
  FirstUsableLBA :: uint64
  LastUsableLBA :: uint64
  DiskGUID :: "uint8 list"
  PartitionEntryLBA :: uint64
  NumberOfEntries :: uint32
  SizeOfEntry :: uint32
  PartitionEntryArrayCRC32 :: uint32

record GPTPartitionEntry =
  PartitionTypeGUID :: "uint8 list"
  UniquePartitionGUID :: "uint8 list"
  StartingLBA :: uint64
  EndingLBA :: uint64
  Attributes :: uint64
  PartitionName :: "uint16 list"

record BootSector =
  BytesPerSector :: uint16
  SectorsPerCluster :: uint8
  ReservedSectorCount :: uint16
  NumFATs :: uint8
  FATSize32 :: uint32
  RootCluster :: uint32
  FileSystemType :: "uint8 list"

text \<open>
  Modelled from the spec: the declarations of \<^verbatim>\<open>MBRHeader\<close>, \<^verbatim>\<open>MBRPartitionEntry\<close>,
  \<^verbatim>\<open>GPTHeader\<close>, \<^verbatim>\<open>GPTPartitionEntry\<close> and \<^verbatim>\<open>BootSector\<close> (DriveHandler.h) are
  missing. The field names are the ones DriveHandler.cpp uses; the offsets are the
  bit-exact layouts of section 6 of the spec: a 512-byte MBR with four 16-byte slots at
  offset 446 and the signature in the last two bytes, a GPT header of one 512-byte
  sector, a 128-byte GPT partition entry, and the FAT32 boot sector. \<^verbatim>\<open>PartitionTable\<close>
  is an array of four slots. A structure that a whole sector was copied over is the
  decoding of that sector.
\<close>

definition sizeof_MBRHeader :: uint32 where
  "sizeof_MBRHeader = 512"

definition sizeof_GPTHeader :: uint32 where
  "sizeof_GPTHeader = 512"

definition sizeof_GPTPartitionEntry :: nat where
  "sizeof_GPTPartitionEntry = 128"

definition decode_MBRPartitionEntry :: "uint8 list \<Rightarrow> MBRPartitionEntry" where
  "decode_MBRPartitionEntry bs =
     \<lparr> BootIndicator = le_word (slice 0 1 bs),
       StartHead = le_word (slice 1 1 bs),
       StartSector = le_word (slice 2 1 bs),
       StartCylinder = le_word (slice 3 1 bs),
       Type = le_word (slice 4 1 bs),
       EndHead = le_word (slice 5 1 bs),
       EndSector = le_word (slice 6 1 bs),
       EndCylinder = le_word (slice 7 1 bs),
       StartLBA = le_word (slice 8 4 bs),
       TotalSectors = le_word (slice 12 4 bs) \<rparr>"

definition decode_MBRHeader :: "uint8 list \<Rightarrow> MBRHeader" where
  "decode_MBRHeader bs =
     \<lparr> bootCode = slice 0 446 bs,
       PartitionTable =
         map (\<lambda>i. decode_MBRPartitionEntry (slice (446 + 16 * i) 16 bs)) [0, 1, 2, 3],
       signature = le_word (slice 510 2 bs) \<rparr>"

definition decode_GPTHeader :: "uint8 list \<Rightarrow> GPTHeader" where
  "decode_GPTHeader bs =
     \<lparr> Signature = slice 0 8 bs,
       Revision = le_word (slice 8 4 bs),
       HeaderSize = le_word (slice 12 4 bs),
       HeaderCRC32 = le_word (slice 16 4 bs),
       CurrentLBA = le_word (slice 24 8 bs),
       BackupLBA = le_word (slice 32 8 bs),
       FirstUsableLBA = le_word (slice 40 8 bs),
       LastUsableLBA = le_word (slice 48 8 bs),
       DiskGUID = slice 56 16 bs,
       PartitionEntryLBA = le_word (slice 72 8 bs),
       NumberOfEntries = le_word (slice 80 4 bs),
       SizeOfEntry = le_word (slice 84 4 bs),
       PartitionEntryArrayCRC32 = le_word (slice 88 4 bs) \<rparr>"

definition decode_GPTPartitionEntry :: "uint8 list \<Rightarrow> GPTPartitionEntry" where
  "decode_GPTPartitionEntry bs =
     \<lparr> PartitionTypeGUID = slice 0 16 bs,
       UniquePartitionGUID = slice 16 16 bs,
       StartingLBA = le_word (slice 32 8 bs),
       EndingLBA = le_word (slice 40 8 bs),
       Attributes = le_word (slice 48 8 bs),
       PartitionName = map (\<lambda>i. le_word (slice (56 + 2 * i) 2 bs)) [0..<36] \<rparr>"

definition decode_BootSector :: "uint8 list \<Rightarrow> BootSector" where
  "decode_BootSector bs =
     \<lparr> BytesPerSector = le_word (slice 11 2 bs),
       SectorsPerCluster = le_word (slice 13 1 bs),
       ReservedSectorCount = le_word (slice 14 2 bs),
       NumFATs = le_word (slice 16 1 bs),
       FATSize32 = le_word (slice 36 4 bs),
       RootCluster = le_word (slice 44 4 bs),
       FileSystemType = slice 82 8 bs \<rparr>"

text \<open>
  The members \<^verbatim>\<open>mbr\<close>, \<^verbatim>\<open>gpt\<close> and \<^verbatim>\<open>bootSector\<close> are filled by reading a
  sector straight into them (\<^verbatim>\<open>readSector(0, &mbr, sizeof(MBRHeader))\<close>). The read is
  in place: the bytes the reader delivered replace the first bytes of the member, and
  what lies after them stays as it was. Field by field: a field at offset \<open>off\<close> that
  the delivered bytes do not reach keeps its value; of a field they reach, the bytes
  delivered from \<open>off\<close> on replace the first bytes, and the rest of its \<open>n\<close> bytes
  stays. \<open>le_bytes n w\<close> are the \<open>n\<close> bytes of the little-endian field \<open>w\<close>.
\<close>

definition le_bytes :: "nat \<Rightarrow> 'a::len word \<Rightarrow> uint8 list" where
  "le_bytes n w = map (\<lambda>i. ucast (drop_bit (8 * i) w)) [0..<n]"

definition read_into :: "nat \<Rightarrow> nat \<Rightarrow> uint8 list \<Rightarrow> uint8 list \<Rightarrow> uint8 list" where
  "read_into off n member bs =
     (if length bs \<le> off then member
      else take n (drop off bs @ drop (length bs - off) member))"

definition read_word_into :: "nat \<Rightarrow> nat \<Rightarrow> 'a::len word \<Rightarrow> uint8 list \<Rightarrow> 'a word" where
  "read_word_into off n member bs =
     (if length bs \<le> off then member
      else le_word (read_into off n (le_bytes n member) bs))"

definition read_into_MBRPartitionEntry ::
    "nat \<Rightarrow> MBRPartitionEntry \<Rightarrow> uint8 list \<Rightarrow> MBRPartitionEntry" where
  "read_into_MBRPartitionEntry off e bs =
     \<lparr> BootIndicator = read_word_into off 1 (BootIndicator e) bs,
       StartHead = read_word_into (off + 1) 1 (StartHead e) bs,
       StartSector = read_word_into (off + 2) 1 (StartSector e) bs,
       StartCylinder = read_word_into (off + 3) 1 (StartCylinder e) bs,
       Type = read_word_into (off + 4) 1 (Type e) bs,
       EndHead = read_word_into (off + 5) 1 (EndHead e) bs,
       EndSector = read_word_into (off + 6) 1 (EndSector e) bs,
       EndCylinder = read_word_into (off + 7) 1 (EndCylinder e) bs,
       StartLBA = read_word_into (off + 8) 4 (StartLBA e) bs,
       TotalSectors = read_word_into (off + 12) 4 (TotalSectors e) bs \<rparr>"

definition read_into_MBRHeader :: "MBRHeader \<Rightarrow> uint8 list \<Rightarrow> MBRHeader" where
  "read_into_MBRHeader m bs =
     \<lparr> bootCode = read_into 0 446 (bootCode m) bs,
       PartitionTable =
         map (\<lambda>i. read_into_MBRPartitionEntry (446 + 16 * i) (PartitionTable m ! i) bs)
           [0, 1, 2, 3],
       signature = read_word_into 510 2 (signature m) bs \<rparr>"

definition read_into_GPTHeader :: "GPTHeader \<Rightarrow> uint8 list \<Rightarrow> GPTHeader" where
  "read_into_GPTHeader g bs =
     \<lparr> Signature = read_into 0 8 (Signature g) bs,
       Revision = read_word_into 8 4 (Revision g) bs,
       HeaderSize = read_word_into 12 4 (HeaderSize g) bs,
       HeaderCRC32 = read_word_into 16 4 (HeaderCRC32 g) bs,
       CurrentLBA = read_word_into 24 8 (CurrentLBA g) bs,
       BackupLBA = read_word_into 32 8 (BackupLBA g) bs,
       FirstUsableLBA = read_word_into 40 8 (FirstUsableLBA g) bs,
       LastUsableLBA = read_word_into 48 8 (LastUsableLBA g) bs,
       DiskGUID = read_into 56 16 (DiskGUID g) bs,
       PartitionEntryLBA = read_word_into 72 8 (PartitionEntryLBA g) bs,
       NumberOfEntries = read_word_into 80 4 (NumberOfEntries g) bs,
       SizeOfEntry = read_word_into 84 4 (SizeOfEntry g) bs,
       PartitionEntryArrayCRC32 = read_word_into 88 4 (PartitionEntryArrayCRC32 g) bs \<rparr>"

definition read_into_BootSector :: "BootSector \<Rightarrow> uint8 list \<Rightarrow> BootSector" where
  "read_into_BootSector b bs =
     \<lparr> BytesPerSector = read_word_into 11 2 (BytesPerSector b) bs,
       SectorsPerCluster = read_word_into 13 1 (SectorsPerCluster b) bs,
       ReservedSectorCount = read_word_into 14 2 (ReservedSectorCount b) bs,
       NumFATs = read_word_into 16 1 (NumFATs b) bs,
       FATSize32 = read_word_into 36 4 (FATSize32 b) bs,
       RootCluster = read_word_into 44 4 (RootCluster b) bs,
       FileSystemType = read_into 82 8 (FileSystemType b) bs \<rparr>"

subsection \<open>The sector source and the object\<close>

text \<open>
  \<^verbatim>\<open>SectorReader\<close> (SectorReader.h) is an abstract class: a reader is given by what its
  two virtual functions used here answer. \<open>None\<close> is the return value \<^verbatim>\<open>false\<close>;
  \<open>Some bs\<close> is \<^verbatim>\<open>true\<close> with \<open>bs\<close> written to the buffer.
\<close>

record SectorReader =
  reader_readSector :: "uint64 \<Rightarrow> uint32 \<Rightarrow> uint8 list option"
  reader_getBytesPerSector :: "uint32 option"

text \<open>
  A reader is opened on a device: a logical volume, or a physical drive at the sector
  where a partition starts.
\<close>

datatype device = LogicalDrive string | PhysicalDrive string uint64

datatype event =
    OpenDrive device
  | ReadSector uint64 uint32
  | GetBytesPerSector
  | CloseDrive
  | ScanForDeletedFiles device uint32
  | RecoverAllFiles device

record DriveHandler =
  config :: Config
  driveType :: DriveType
  sectorReader :: "SectorReader option"
  bytesPerSector :: uint32
  mbr :: MBRHeader
  gpt :: GPTHeader
  bootSector :: BootSector
  fatStartSector :: uint32
  dataStartSector :: uint32
  rootDirCluster :: uint32
  partitionsMBR :: "MBRPartitionEntry list"
  partitionsGPT :: "GPTPartitionEntry list"
  trace :: "event list"

text \<open>
  What lies outside DriveHandler.cpp is a parameter of the model: the two reader classes
  (PhysicalDriveReader.h, LogicalDriveReader.h), whether each of the two calls into the
  FAT32 recovery engine (FAT32Recovery.h) returns normally (\<open>True\<close>) or throws on a
  given device, the numeric values of the enumerators of \<^verbatim>\<open>FilesystemType\<close>, the constant
  \<^verbatim>\<open>GUID_FAT32_TYPE\<close>, and the indeterminate bytes of an uninitialised local
  \<^verbatim>\<open>GPTPartitionEntry\<close>.
\<close>

record environment =
  LogicalDriveReader :: "string \<Rightarrow> SectorReader"
  PhysicalDriveReader :: "string \<Rightarrow> uint64 \<Rightarrow> SectorReader"
  FAT32Recovery_scanForDeletedFiles :: "device \<Rightarrow> bool"
  FAT32Recovery_recoverAllFiles :: "device \<Rightarrow> bool"
  FilesystemType_value :: "FilesystemType \<Rightarrow> nat"
  GUID_FAT32_TYPE :: "uint8 list"
  uninitialised_entry :: "uint8 list"

type_synonym 'a result = "(error + 'a) \<times> DriveHandler"

subsection \<open>Core drive operations\<close>

definition log_event :: "event \<Rightarrow> DriveHandler \<Rightarrow> DriveHandler" where
  "log_event e s = s\<lparr>trace := trace s @ [e]\<rparr>"

definition setSectorReader :: "SectorReader \<Rightarrow> DriveHandler \<Rightarrow> DriveHandler" where
  "setSectorReader reader s = s\<lparr>sectorReader := Some reader\<rparr>"

definition initializeSectorReader :: "environment \<Rightarrow> DriveHandler \<Rightarrow> unit result" where
  "initializeSectorReader env s =
     (if driveType s = LOGICAL_DRIVE then
        (let s1 = setSectorReader (LogicalDriveReader env (drivePath (config s)))
                    (log_event (OpenDrive (LogicalDrive (drivePath (config s)))) s)
         in if sectorReader s1 = None
            then (Inl (RuntimeError ''Failed to initialize Sector Reader.''), s1)
            else (Inr (), s1))
      else if driveType s = PHYSICAL_DRIVE then
        (let s1 = setSectorReader (PhysicalDriveReader env (drivePath (config s)) 0)
                    (log_event (OpenDrive (PhysicalDrive (drivePath (config s)) 0)) s)
         in if sectorReader s1 = None
            then (Inl (RuntimeError ''Failed to initialize Sector Reader.''), s1)
            else (Inr (), s1))
      else
        (Inl (RuntimeError ''Could not determine the type of the drive (Physical, Logical). Please make sure to enter the correct drive.''), s))"

text \<open>
  \<^verbatim>\<open>readSector\<close> hands the caller's buffer to the reader; the model returns the bytes
  the reader wrote.
\<close>

definition readSector :: "uint64 \<Rightarrow> uint32 \<Rightarrow> DriveHandler \<Rightarrow> (uint8 list) result" where
  "readSector sector sz s =
     (case sectorReader s of
        None \<Rightarrow> (Inl NullDereference, s)
      | Some reader \<Rightarrow>
          (case reader_readSector reader sector sz of
             None \<Rightarrow> (Inl (RuntimeError ''Cannot read sector.''), log_event (ReadSector sector sz) s)
           | Some bs \<Rightarrow> (Inr bs, log_event (ReadSector sector sz) s)))"

definition getBytesPerSector :: "DriveHandler \<Rightarrow> unit result" where
  "getBytesPerSector s =
     (case sectorReader s of
        None \<Rightarrow> (Inl NullDereference, s)
      | Some reader \<Rightarrow>
          (case reader_getBytesPerSector reader of
             None \<Rightarrow> (Inl (RuntimeError ''Failed to read BytesPerSector value using DeviceIoControl''),
                      log_event GetBytesPerSector s)
           | Some n \<Rightarrow> (Inr (), (log_event GetBytesPerSector s)\<lparr>bytesPerSector := n\<rparr>)))"

definition closeDrive :: "DriveHandler \<Rightarrow> DriveHandler" where
  "closeDrive s =
     (case sectorReader s of
        None \<Rightarrow> s
      | Some reader \<Rightarrow> (log_event CloseDrive s)\<lparr>sectorReader := None\<rparr>)"

subsection \<open>Drive and partition analysis\<close>

text \<open>
  A \<^verbatim>\<open>std::wstring\<close> is a \<open>string\<close>. The character classes are those of the "C"
  locale: \<^verbatim>\<open>isdigit\<close> holds of the ten decimal digits, \<^verbatim>\<open>iswalpha\<close> of the 52
  Latin letters, and \<^verbatim>\<open>towupper\<close> changes the 26 lower-case letters only.
\<close>

definition digits :: string where
  "digits = ''0123456789''"

definition upper_case_letters :: string where
  "upper_case_letters = ''ABCDEFGHIJKLMNOPQRSTUVWXYZ''"

definition lower_case_letters :: string where
  "lower_case_letters = ''abcdefghijklmnopqrstuvwxyz''"

definition isdigit :: "char \<Rightarrow> bool" where
  "isdigit c = (c \<in> set digits)"

definition iswalpha :: "char \<Rightarrow> bool" where
  "iswalpha c = (c \<in> set upper_case_letters \<or> c \<in> set lower_case_letters)"

definition towupper :: "char \<Rightarrow> char" where
  "towupper c =
     (case map_of (zip lower_case_letters upper_case_letters) c of
        Some u \<Rightarrow> u
      | None \<Rightarrow> c)"

text \<open>\<^verbatim>\<open>std::wstring::find\<close>: the first position of a substring; \<open>None\<close> is \<^verbatim>\<open>npos\<close>.\<close>

fun wstring_find :: "string \<Rightarrow> string \<Rightarrow> nat option" where
  "wstring_find [] pat = (if pat = [] then Some 0 else None)"
| "wstring_find (c # cs) pat =
     (if take (length pat) (c # cs) = pat then Some 0
      else map_option Suc (wstring_find cs pat))"

definition device_prefix :: string where
  "device_prefix = [CHR 0x5C, CHR 0x5C, CHR ''.'', CHR 0x5C]"

definition set_drivePath :: "string \<Rightarrow> DriveHandler \<Rightarrow> DriveHandler" where
  "set_drivePath p s = s\<lparr>config := (config s)\<lparr>drivePath := p\<rparr>\<rparr>"

definition determineDriveType :: "string \<Rightarrow> DriveHandler \<Rightarrow> DriveType \<times> DriveHandler" where
  "determineDriveType path0 s =
     (let upperDrivePath = map towupper path0;
          path = device_prefix
      in if length path0 = 1 \<and> isdigit (path0 ! 0) then
           (PHYSICAL_DRIVE, set_drivePath (path @ ''PhysicalDrive'' @ path0) s)
         else if wstring_find upperDrivePath ''PHYSICALDRIVE'' \<noteq> None
               \<and> isdigit (upperDrivePath ! (length upperDrivePath - 1)) then
           (PHYSICAL_DRIVE,
            set_drivePath (path @ ''PhysicalDrive'' @ [upperDrivePath ! (length upperDrivePath - 1)]) s)
         else if (length upperDrivePath = 1 \<and> iswalpha (upperDrivePath ! 0))
               \<or> (length upperDrivePath = 2 \<and> iswalpha (upperDrivePath ! 0)
                    \<and> upperDrivePath ! 1 = CHR '':'') then
           (LOGICAL_DRIVE,
            set_drivePath (path @ upperDrivePath @ (if length upperDrivePath = 1 then '':'' else '''')) s)
         else (UNKNOWN_DRIVE, s))"

definition readMBR :: "DriveHandler \<Rightarrow> unit result" where
  "readMBR s =
     (case readSector 0 sizeof_MBRHeader s of
        (Inl e, s1) \<Rightarrow> (Inl e, s1)
      | (Inr bs, s1) \<Rightarrow> (Inr (), s1\<lparr>mbr := read_into_MBRHeader (mbr s1) bs\<rparr>))"

definition isMBR :: "DriveHandler \<Rightarrow> bool" where
  "isMBR s = (signature (mbr s) = 0xAA55)"

definition readGPT :: "DriveHandler \<Rightarrow> unit result" where
  "readGPT s =
     (case readSector 1 sizeof_GPTHeader s of
        (Inl e, s1) \<Rightarrow> (Inl e, s1)
      | (Inr bs, s1) \<Rightarrow> (Inr (), s1\<lparr>gpt := read_into_GPTHeader (gpt s1) bs\<rparr>))"

text \<open>\<^verbatim>\<open>memcmp(a, b, n) == 0\<close>.\<close>

definition memcmp_eq :: "uint8 list \<Rightarrow> uint8 list \<Rightarrow> nat \<Rightarrow> bool" where
  "memcmp_eq a b n = (take n a = take n b)"

definition isGPT :: "DriveHandler \<Rightarrow> bool" where
  "isGPT s = memcmp_eq (Signature (gpt s)) (ascii ''EFI PART'') 8"

definition getPartitionScheme :: "DriveHandler \<Rightarrow> PartitionScheme result" where
  "getPartitionScheme s =
     (case readMBR s of
        (Inl e, s1) \<Rightarrow> (Inl e, s1)
      | (Inr u, s1) \<Rightarrow>
          (case readGPT s1 of
             (Inl e, s2) \<Rightarrow> (Inl e, s2)
           | (Inr u, s2) \<Rightarrow>
               (if isGPT s2 then (Inr GPT_SCHEME, s2)
                else if isMBR s2 then (Inr MBR_SCHEME, s2)
                else (Inr UNKNOWN_SCHEME, s2))))"

definition readBootSector :: "uint32 \<Rightarrow> DriveHandler \<Rightarrow> unit result" where
  "readBootSector sector s =
     (case readSector (ucast sector) 512 s of
        (Inl e, s1) \<Rightarrow> (Inl e, s1)
      | (Inr bs, s1) \<Rightarrow>
          (let s2 = s1\<lparr>bootSector := read_into_BootSector (bootSector s1) bs\<rparr>;
               s3 = s2\<lparr>fatStartSector := ucast (ReservedSectorCount (bootSector s2))\<rparr>;
               s4 = s3\<lparr>dataStartSector :=
                          fatStartSector s3
                          + (ucast (NumFATs (bootSector s3)) * FATSize32 (bootSector s3))\<rparr>;
               s5 = s4\<lparr>rootDirCluster := RootCluster (bootSector s4)\<rparr>
           in (Inr (), s5)))"

text \<open>The loop \<^verbatim>\<open>for (int i = 0; i < 4; i++)\<close> of \<^verbatim>\<open>getMBRPartitions\<close>.\<close>

function getMBRPartitions_from :: "nat \<Rightarrow> DriveHandler \<Rightarrow> DriveHandler" where
  "getMBRPartitions_from i s =
     (if i < 4 then
        getMBRPartitions_from (i + 1)
          (if TotalSectors (PartitionTable (mbr s) ! i) \<noteq> 0
           then s\<lparr>partitionsMBR := partitionsMBR s @ [PartitionTable (mbr s) ! i]\<rparr>
           else s)
      else s)"
  by pat_completeness auto
termination
  by (relation "measure (\<lambda>(i, s). 4 - i)") auto

definition getMBRPartitions :: "DriveHandler \<Rightarrow> DriveHandler" where
  "getMBRPartitions s = getMBRPartitions_from 0 s"

subsection \<open>GPT partition handling\<close>

text \<open>
  \<^verbatim>\<open>std::memcpy(&partitionEntry, sectorBuffer + (j * sizeOfEntry), sizeOfEntry)\<close> into a
  fresh local \<^verbatim>\<open>GPTPartitionEntry\<close>: the first \<open>sizeOfEntry\<close> bytes of the structure
  come from the sector, the others keep their indeterminate values. Copying more bytes
  than the structure has writes past it.
\<close>

definition memcpy_entry :: "environment \<Rightarrow> uint8 list \<Rightarrow> uint32 \<Rightarrow> uint32 \<Rightarrow> error + GPTPartitionEntry" where
  "memcpy_entry env sectorBuffer j sizeOfEntry =
     (if sizeof_GPTPartitionEntry < unat sizeOfEntry then Inl BufferOverrun
      else Inr (decode_GPTPartitionEntry
                  (slice (unat (j * sizeOfEntry)) (unat sizeOfEntry) sectorBuffer
                   @ drop (unat sizeOfEntry) (uninitialised_entry env))))"

definition isEmptyGUID :: "GPTPartitionEntry \<Rightarrow> bool" where
  "isEmptyGUID partitionEntry = list_all (\<lambda>byte. byte = 0) (take 16 (PartitionTypeGUID partitionEntry))"

text \<open>The inner loop: the entries of one sector, from entry \<open>j\<close> of the sector on.\<close>

function getGPTPartitions_entries ::
  "environment \<Rightarrow> uint8 list \<Rightarrow> uint32 \<Rightarrow> uint32 \<Rightarrow> uint32 \<Rightarrow> uint32 \<Rightarrow> DriveHandler \<Rightarrow> unit result" where
  "getGPTPartitions_entries env sectorBuffer sizeOfEntry entriesPerSector i j s =
     (if j < entriesPerSector \<and> i + j < NumberOfEntries (gpt s) then
        (case memcpy_entry env sectorBuffer j sizeOfEntry of
           Inl e \<Rightarrow> (Inl e, s)
         | Inr partitionEntry \<Rightarrow>
             getGPTPartitions_entries env sectorBuffer sizeOfEntry entriesPerSector i (j + 1)
               (if \<not> isEmptyGUID partitionEntry
                then s\<lparr>partitionsGPT := partitionsGPT s @ [partitionEntry]\<rparr>
                else s))
      else (Inr (), s))"
  by pat_completeness auto
termination
proof (relation "measure (\<lambda>(env, sectorBuffer, sizeOfEntry, entriesPerSector, i, j, s).
                            unat entriesPerSector - unat j)")
  show "wf (measure (\<lambda>(env, sectorBuffer, sizeOfEntry, entriesPerSector, i, j, s).
                            unat entriesPerSector - unat j))"
    by simp
next
  fix env :: environment and sectorBuffer :: "uint8 list"
    and sizeOfEntry entriesPerSector i j :: uint32 and s :: DriveHandler
    and partitionEntry :: GPTPartitionEntry
  assume "j < entriesPerSector \<and> i + j < NumberOfEntries (gpt s)"
  then have lt: "unat j < unat entriesPerSector"
    by (simp add: word_less_nat_alt)
  have "unat entriesPerSector < 2 ^ 32"
    using unsigned_less [of entriesPerSector] by simp
  with lt have "unat j + 1 < 2 ^ 32" by simp
  then have "unat (j + 1) = unat j + 1"
    by (simp add: unat_word_ariths)
  with lt show "((env, sectorBuffer, sizeOfEntry, entriesPerSector, i, j + 1,
                  if \<not> isEmptyGUID partitionEntry
                  then s\<lparr>partitionsGPT := partitionsGPT s @ [partitionEntry]\<rparr> else s),
                 (env, sectorBuffer, sizeOfEntry, entriesPerSector, i, j, s))
                \<in> measure (\<lambda>(env, sectorBuffer, sizeOfEntry, entriesPerSector, i, j, s).
                            unat entriesPerSector - unat j)"
    by simp
qed

text \<open>
  The outer loop \<^verbatim>\<open>for (uint32_t i = 0; i < gpt.NumberOfEntries; i += entriesPerSector)\<close>.
  Nothing bounds the number of its iterations, so it is a partial function: \<open>None\<close> is
  a run that never leaves the loop.
\<close>

partial_function (option) getGPTPartitions_sectors ::
  "environment \<Rightarrow> uint32 \<Rightarrow> uint32 \<Rightarrow> uint32 \<Rightarrow> DriveHandler \<Rightarrow> unit result option" where
  "getGPTPartitions_sectors env sizeOfEntry entriesPerSector i s =
     (if i < NumberOfEntries (gpt s) then
        (if bytesPerSector s = 0 then Some (Inl DivideByZero, s)
         else
           (case readSector (PartitionEntryLBA (gpt s) + ucast ((i * sizeOfEntry) div bytesPerSector s))
                   (bytesPerSector s) s of
              (Inl e, s1) \<Rightarrow> Some (Inl e, s1)
            | (Inr sectorBuffer, s1) \<Rightarrow>
                (case getGPTPartitions_entries env sectorBuffer sizeOfEntry entriesPerSector i 0 s1 of
                   (Inl e, s2) \<Rightarrow> Some (Inl e, s2)
                 | (Inr u, s2) \<Rightarrow>
                     getGPTPartitions_sectors env sizeOfEntry entriesPerSector (i + entriesPerSector) s2)))
      else Some (Inr (), s))"

definition getGPTPartitions :: "environment \<Rightarrow> DriveHandler \<Rightarrow> unit result option" where
  "getGPTPartitions env s =
     (let sizeOfEntry = SizeOfEntry (gpt s)
      in if sizeOfEntry = 0 then Some (Inl DivideByZero, s)
         else getGPTPartitions_sectors env sizeOfEntry (bytesPerSector s div sizeOfEntry) 0 s)"

subsection \<open>Filesystem detection\<close>

text \<open>
  A string literal passed as \<^verbatim>\<open>const char*\<close> ends at its first NUL character:
  \<^verbatim>\<open>find_first_of(" \0")\<close> and \<^verbatim>\<open>fsType == "FAT32"\<close> see the literal through
  \<open>c_str\<close>. \<^verbatim>\<open>find_first_of\<close> gives the first position of a character of the set
  (\<open>None\<close> is \<^verbatim>\<open>npos\<close>); \<^verbatim>\<open>substr(0, n)\<close> with \<^verbatim>\<open>npos\<close> is the whole string.
\<close>

definition c_str :: "uint8 list \<Rightarrow> uint8 list" where
  "c_str literal = takeWhile (\<lambda>b. b \<noteq> 0) literal"

definition find_first_of :: "uint8 list \<Rightarrow> uint8 list \<Rightarrow> nat option" where
  "find_first_of str chars =
     (if list_ex (\<lambda>b. b \<in> set chars) str
      then Some (length (takeWhile (\<lambda>b. b \<notin> set chars) str))
      else None)"

definition substr0 :: "uint8 list \<Rightarrow> nat option \<Rightarrow> uint8 list" where
  "substr0 str n = (case n of None \<Rightarrow> str | Some k \<Rightarrow> take k str)"

definition fsType_of_label :: "uint8 list \<Rightarrow> FilesystemType" where
  "fsType_of_label label =
     (let fsType = take 8 label;
          fsType = substr0 fsType (find_first_of fsType (c_str (ascii '' '' @ [0])))
      in if fsType = c_str (ascii ''FAT32'') then FAT32_TYPE
         else if fsType = c_str (ascii ''NTFS'') then NTFS_TYPE
         else if fsType = c_str (ascii ''exFAT'') then EXFAT_TYPE
         else if fsType = c_str (ascii ''EXT4'') then EXT4_TYPE
         else UNKNOWN_TYPE)"

definition getFSTypeFromBootSector :: "uint32 \<Rightarrow> DriveHandler \<Rightarrow> FilesystemType result" where
  "getFSTypeFromBootSector sector s =
     (case readBootSector sector s of
        (Inl e, s1) \<Rightarrow> (Inl e, s1)
      | (Inr u, s1) \<Rightarrow> (Inr (fsType_of_label (FileSystemType (bootSector s1))), s1))"

text \<open>
  \<^verbatim>\<open>static_cast<FilesystemType>(type)\<close>: the type byte is read as the numeric value of
  an enumerator, so its result is compared through \<open>FilesystemType_value\<close>.
\<close>

definition getFSTypeFromMBRPartition :: "uint8 \<Rightarrow> nat" where
  "getFSTypeFromMBRPartition type = unat type"

definition getFSTypeFromGPTPartition :: "environment \<Rightarrow> uint8 list \<Rightarrow> FilesystemType" where
  "getFSTypeFromGPTPartition env partitionTypeGUID =
     (if memcmp_eq partitionTypeGUID (GUID_FAT32_TYPE env) 16 then FAT32_TYPE else UNKNOWN_TYPE)"

subsection \<open>Recovery methods\<close>

text \<open>
  Each of the three recovery methods builds a \<^verbatim>\<open>FAT32Recovery\<close> on a fresh reader and
  calls \<^verbatim>\<open>scanForDeletedFiles(0)\<close> and \<^verbatim>\<open>recoverAllFiles()\<close>; an exception of either
  call leaves the method.
\<close>

definition run_FAT32Recovery :: "environment \<Rightarrow> device \<Rightarrow> DriveHandler \<Rightarrow> unit result" where
  "run_FAT32Recovery env dev s =
     (let s1 = log_event (OpenDrive dev) s;
          s2 = log_event (ScanForDeletedFiles dev 0) s1
      in if \<not> FAT32Recovery_scanForDeletedFiles env dev then (Inl RecoveryFailure, s2)
         else
           (let s3 = log_event (RecoverAllFiles dev) s2
            in if \<not> FAT32Recovery_recoverAllFiles env dev then (Inl RecoveryFailure, s3)
               else (Inr (), s3)))"

definition recoverFromLogicalDriveFAT32 :: "environment \<Rightarrow> DriveHandler \<Rightarrow> unit result" where
  "recoverFromLogicalDriveFAT32 env s =
     run_FAT32Recovery env (LogicalDrive (drivePath (config s))) s"

definition recoverFromPhysicalDriveFAT32MBR ::
  "environment \<Rightarrow> MBRPartitionEntry \<Rightarrow> DriveHandler \<Rightarrow> unit result" where
  "recoverFromPhysicalDriveFAT32MBR env part s =
     (let startLBA = ucast (StartLBA part)
      in run_FAT32Recovery env (PhysicalDrive (drivePath (config s)) startLBA) s)"

definition recoverFromPhysicalDriveFAT32GPT ::
  "environment \<Rightarrow> GPTPartitionEntry \<Rightarrow> DriveHandler \<Rightarrow> unit result" where
  "recoverFromPhysicalDriveFAT32GPT env part s =
     (let startLBA = StartingLBA part
      in run_FAT32Recovery env (PhysicalDrive (drivePath (config s)) startLBA) s)"

text \<open>The two range-based \<^verbatim>\<open>for\<close> loops of \<^verbatim>\<open>recoverFromPhysicalDriveFAT32\<close>.\<close>

fun recoverFAT32_over_MBR :: "environment \<Rightarrow> MBRPartitionEntry list \<Rightarrow> DriveHandler \<Rightarrow> unit result" where
  "recoverFAT32_over_MBR env [] s = (Inr (), s)"
| "recoverFAT32_over_MBR env (part # rest) s =
     (if getFSTypeFromMBRPartition (Type part) = FilesystemType_value env FAT32_TYPE then
        (case recoverFromPhysicalDriveFAT32MBR env part s of
           (Inl e, s1) \<Rightarrow> (Inl e, s1)
         | (Inr u, s1) \<Rightarrow> recoverFAT32_over_MBR env rest s1)
      else recoverFAT32_over_MBR env rest s)"

fun recoverFAT32_over_GPT :: "environment \<Rightarrow> GPTPartitionEntry list \<Rightarrow> DriveHandler \<Rightarrow> unit result" where
  "recoverFAT32_over_GPT env [] s = (Inr (), s)"
| "recoverFAT32_over_GPT env (part # rest) s =
     (if getFSTypeFromGPTPartition env (PartitionTypeGUID part) = FAT32_TYPE then
        (case recoverFromPhysicalDriveFAT32GPT env part s of
           (Inl e, s1) \<Rightarrow> (Inl e, s1)
         | (Inr u, s1) \<Rightarrow> recoverFAT32_over_GPT env rest s1)
      else recoverFAT32_over_GPT env rest s)"

definition recoverFromPhysicalDriveFAT32 ::
  "environment \<Rightarrow> PartitionScheme \<Rightarrow> DriveHandler \<Rightarrow> unit result" where
  "recoverFromPhysicalDriveFAT32 env partitionScheme s =
     (if partitionScheme = MBR_SCHEME then recoverFAT32_over_MBR env (partitionsMBR s) s
      else if partitionScheme = GPT_SCHEME then recoverFAT32_over_GPT env (partitionsGPT s) s
      else (Inl (RuntimeError ''Partition is neither MBR nor GPT. Please make sure to enter the correct drive.''), s))"

subsection \<open>Public interface\<close>

text \<open>
  The constructor. \<open>raw\<close> is the storage the object is built in: it gives the members
  that have no initialiser their indeterminate values. The two vectors start empty, and
  so does the log.
\<close>

definition DriveHandler_ctor :: "environment \<Rightarrow> Config \<Rightarrow> DriveHandler \<Rightarrow> unit result" where
  "DriveHandler_ctor env cfg raw =
     (let s0 = raw\<lparr>config := cfg, driveType := UNKNOWN_DRIVE, sectorReader := None,
                    partitionsMBR := [], partitionsGPT := [], trace := []\<rparr>;
          (t, s1) = determineDriveType (drivePath (config s0)) s0;
          s2 = s1\<lparr>driveType := t\<rparr>
      in initializeSectorReader env s2)"

definition recoverDrive :: "environment \<Rightarrow> DriveHandler \<Rightarrow> unit result option" where
  "recoverDrive env s =
     (if driveType s = LOGICAL_DRIVE then
        (case getFSTypeFromBootSector 0 s of
           (Inl e, s1) \<Rightarrow> Some (Inl e, s1)
         | (Inr fsType, s1) \<Rightarrow>
             (let s2 = closeDrive s1
              in if fsType = FAT32_TYPE then Some (recoverFromLogicalDriveFAT32 env s2)
                 else Some (Inr (), s2)))
      else if driveType s = PHYSICAL_DRIVE then
        (case getPartitionScheme s of
           (Inl e, s1) \<Rightarrow> Some (Inl e, s1)
         | (Inr partitionScheme, s1) \<Rightarrow>
             (if partitionScheme = MBR_SCHEME then
                (let s2 = getMBRPartitions s1;
                     s3 = closeDrive s2
                 in Some (recoverFromPhysicalDriveFAT32 env partitionScheme s3))
              else if partitionScheme = GPT_SCHEME then
                (case getBytesPerSector s1 of
                   (Inl e, s2) \<Rightarrow> Some (Inl e, s2)
                 | (Inr u, s2) \<Rightarrow>
                     (case getGPTPartitions env s2 of
                        None \<Rightarrow> None
                      | Some (Inl e, s3) \<Rightarrow> Some (Inl e, s3)
                      | Some (Inr u, s3) \<Rightarrow>
                          (let s4 = closeDrive s3
                           in Some (recoverFromPhysicalDriveFAT32 env partitionScheme s4))))
              else Some (Inr (), s1)))
      else Some (Inr (), s))"

declare getGPTPartitions_sectors.simps [code]

subsection \<open>The input shapes of the drive specification\<close>

text \<open>
  The shapes of a drive specification, as predicates on the text the user gave:
  one decimal digit; a name that contains \<^verbatim>\<open>PhysicalDrive\<close> in any case and ends
  in a digit; a letter, or a letter followed by a colon. \<open>bare_number\<close> is the
  shape "a bare number" of the description of \<^verbatim>\<open>classify\<close>: a non-empty sequence of
  digits.
\<close>

definition single_digit :: "string \<Rightarrow> bool" where
  "single_digit p = (length p = 1 \<and> isdigit (hd p))"

definition names_physical_drive :: "string \<Rightarrow> bool" where
  "names_physical_drive p =
     (wstring_find (map towupper p) ''PHYSICALDRIVE'' \<noteq> None \<and> isdigit (last p))"

fun drive_letter :: "string \<Rightarrow> bool" where
  "drive_letter [c] = iswalpha c"
| "drive_letter [c, d] = (iswalpha c \<and> d = CHR '':'')"
| "drive_letter p = False"

definition bare_number :: "string \<Rightarrow> bool" where
  "bare_number p = (p \<noteq> [] \<and> list_all isdigit p)"

definition could_not_determine :: error where
  "could_not_determine = RuntimeError ''Could not determine the type of the drive (Physical, Logical). Please make sure to enter the correct drive.''"

subsection \<open>What a recovery pass did\<close>

text \<open>
  \<open>fat32_targets\<close> is the list the claim speaks of: the partitions of the list whose
  type resolves to FAT32, in list order, each as the device the recovery engine is
  opened on. \<open>recovery_returns\<close> says that neither call into the engine throws on a
  device. \<open>recovery_events\<close> is what one complete recovery of a device does: it opens a
  reader at the start of the partition, scans for deleted files from cluster 0 and recovers
  all files. \<open>engine_events\<close> is what one invocation does when the engine may throw: the
  third step is reached only if the scan returned. \<open>visited\<close> are the devices a pass gets
  to: those before the first one on which the engine throws, and that one.
\<close>

definition recovery_events :: "device \<Rightarrow> event list" where
  "recovery_events dev = [OpenDrive dev, ScanForDeletedFiles dev 0, RecoverAllFiles dev]"

definition engine_events :: "environment \<Rightarrow> device \<Rightarrow> event list" where
  "engine_events env dev =
     (if FAT32Recovery_scanForDeletedFiles env dev then recovery_events dev
      else [OpenDrive dev, ScanForDeletedFiles dev 0])"

definition fat32_MBR_devices :: "environment \<Rightarrow> string \<Rightarrow> MBRPartitionEntry list \<Rightarrow> device list" where
  "fat32_MBR_devices env path ps =
     map (\<lambda>p. PhysicalDrive path (ucast (StartLBA p)))
       (filter (\<lambda>p. unat (Type p) = FilesystemType_value env FAT32_TYPE) ps)"

definition fat32_GPT_devices :: "environment \<Rightarrow> string \<Rightarrow> GPTPartitionEntry list \<Rightarrow> device list" where
  "fat32_GPT_devices env path ps =
     map (\<lambda>p. PhysicalDrive path (StartingLBA p))
       (filter (\<lambda>p. take 16 (PartitionTypeGUID p) = take 16 (GUID_FAT32_TYPE env)) ps)"

definition fat32_targets :: "environment \<Rightarrow> PartitionScheme \<Rightarrow> DriveHandler \<Rightarrow> device list" where
  "fat32_targets env scheme s =
     (if scheme = MBR_SCHEME then fat32_MBR_devices env (drivePath (config s)) (partitionsMBR s)
      else if scheme = GPT_SCHEME then fat32_GPT_devices env (drivePath (config s)) (partitionsGPT s)
      else [])"

definition recovery_returns :: "environment \<Rightarrow> device \<Rightarrow> bool" where
  "recovery_returns env dev =
     (FAT32Recovery_scanForDeletedFiles env dev \<and> FAT32Recovery_recoverAllFiles env dev)"

definition visited :: "environment \<Rightarrow> device list \<Rightarrow> device list" where
  "visited env devs =
     takeWhile (recovery_returns env) devs @ take 1 (dropWhile (recovery_returns env) devs)"

subsection \<open>The partition entry array\<close>

text \<open>
  The entries of a GPT partition entry array of 128-byte entries, \<open>e\<close> to a sector:
  entry \<open>n\<close> is in sector \<open>n div e\<close> of the array, at offset \<open>(n mod e) * 128\<close>.
  \<open>entry_sectors n e\<close> is the number of sectors that hold \<open>n\<close> entries, the ceiling
  of \<open>n / e\<close>. \<open>nonempty_entries\<close> is what the inner loop keeps of a list of raw
  entries.
\<close>

definition entry_at :: "(nat \<Rightarrow> uint8 list) \<Rightarrow> nat \<Rightarrow> nat \<Rightarrow> uint8 list" where
  "entry_at disk e n = slice ((n mod e) * 128) 128 (disk (n div e))"

definition entry_sectors :: "nat \<Rightarrow> nat \<Rightarrow> nat" where
  "entry_sectors n e = (n + e - 1) div e"

definition nonempty_entries :: "environment \<Rightarrow> uint8 list list \<Rightarrow> GPTPartitionEntry list" where
  "nonempty_entries env raws =
     filter (\<lambda>p. \<not> isEmptyGUID p)
       (map (\<lambda>raw. decode_GPTPartitionEntry (raw @ drop 128 (uninitialised_entry env))) raws)"

subsection \<open>Sample devices\<close>

definition image_reader :: "(uint64 \<Rightarrow> uint8 list option) \<Rightarrow> uint32 \<Rightarrow> SectorReader" where
  "image_reader img bps =
     \<lparr> reader_readSector = (\<lambda>sector sz. map_option (take (unat sz)) (img sector)),
       reader_getBytesPerSector = Some bps \<rparr>"

definition sample_env :: "(uint64 \<Rightarrow> uint8 list option) \<Rightarrow> environment" where
  "sample_env img =
     \<lparr> LogicalDriveReader = (\<lambda>path. image_reader img 512),
       PhysicalDriveReader = (\<lambda>path startLBA. image_reader (\<lambda>sector. img (startLBA + sector)) 512),
       FAT32Recovery_scanForDeletedFiles = (\<lambda>dev. True),
       FAT32Recovery_recoverAllFiles = (\<lambda>dev. True),
       FilesystemType_value =
         (\<lambda>t. case t of FAT32_TYPE \<Rightarrow> 0x0C | NTFS_TYPE \<Rightarrow> 0x07 | EXFAT_TYPE \<Rightarrow> 0x07
               | EXT4_TYPE \<Rightarrow> 0x83 | UNKNOWN_TYPE \<Rightarrow> 0),
       GUID_FAT32_TYPE =
         [0xA2, 0xA0, 0xD0, 0xEB, 0xE5, 0xB9, 0x33, 0x44, 0x87, 0xC0, 0x68, 0xB6, 0xB7, 0x26, 0x99, 0xC7],
       uninitialised_entry = replicate 128 0xCC \<rparr>"

definition sample_config :: "string \<Rightarrow> Config" where
  "sample_config path =
     \<lparr> drivePath = path, inputFolder = [], outputFolder = [], logFolder = [], logFile = [],
       targetCluster = 0, targetFileSize = 0, createFileDataLog = False, recover = False,
       analyze = False \<rparr>"

definition raw_storage :: DriveHandler where
  "raw_storage =
     \<lparr> config = sample_config [],
       driveType = UNKNOWN_DRIVE, sectorReader = None, bytesPerSector = 0,
       mbr = decode_MBRHeader (replicate 512 0), gpt = decode_GPTHeader (replicate 512 0),
       bootSector = decode_BootSector (replicate 512 0),
       fatStartSector = 0, dataStartSector = 0, rootDirCluster = 0,
       partitionsMBR = [], partitionsGPT = [], trace = [] \<rparr>"

text \<open>An object whose reader is open on an image.\<close>

definition handler_on :: "(uint64 \<Rightarrow> uint8 list option) \<Rightarrow> DriveHandler" where
  "handler_on img = raw_storage\<lparr>driveType := PHYSICAL_DRIVE, sectorReader := Some (image_reader img 512)\<rparr>"

definition sectors :: "uint8 list list \<Rightarrow> uint64 \<Rightarrow> uint8 list option" where
  "sectors ss sector = (if unat sector < length ss then Some (ss ! unat sector) else None)"

definition mbr_slot :: "uint8 \<Rightarrow> uint8 list \<Rightarrow> uint8 list \<Rightarrow> uint8 list" where
  "mbr_slot type lba count = [0, 0, 0, 0, type, 0, 0, 0] @ lba @ count"

text \<open>
  An MBR with a FAT32 partition (type \<open>0x0C\<close>) in slot 0, an empty slot 1, an NTFS
  partition (type \<open>0x07\<close>) in slot 2 and a FAT32 partition in slot 3.
\<close>

definition sample_mbr_sector :: "uint8 list" where
  "sample_mbr_sector =
     replicate 446 0
     @ mbr_slot 0x0C [0, 8, 0, 0] [0, 0x20, 3, 0]
     @ mbr_slot 0 [0, 0, 0, 0] [0, 0, 0, 0]
     @ mbr_slot 0x07 [0, 0x28, 3, 0] [0, 0x10, 0, 0]
     @ mbr_slot 0x0C [0, 0x38, 3, 0] [0, 0x40, 0, 0]
     @ [0x55, 0xAA]"

definition blank_sector :: "uint8 list" where
  "blank_sector = replicate 512 0"

text \<open>A FAT32 boot sector: 32 reserved sectors, 2 FATs of 1000 sectors, a given label.\<close>

definition sample_boot_sector :: "uint8 list \<Rightarrow> uint8 list" where
  "sample_boot_sector label =
     replicate 11 0 @ [0, 2, 8, 32, 0, 2] @ replicate 19 0 @ [0xE8, 3, 0, 0]
     @ replicate 4 0 @ [2, 0, 0, 0] @ replicate 34 0 @ label @ replicate 420 0 @ [0x55, 0xAA]"

text \<open>
  The first 17 bytes of a boot sector with 7 reserved sectors and 3 FATs: what a reader
  delivers that reports success on a read cut short.
\<close>

definition short_boot_read :: "uint8 list" where
  "short_boot_read = replicate 11 0 @ [0, 2, 8, 7, 0, 3]"

text \<open>
  A FAT32 boot sector with 65535 reserved sectors and 255 FATs of 4294967295 sectors.
\<close>

definition overflowing_boot_sector :: "uint8 list" where
  "overflowing_boot_sector =
     replicate 11 0 @ [0, 2, 8, 0xFF, 0xFF, 0xFF] @ replicate 19 0 @ [0xFF, 0xFF, 0xFF, 0xFF]
     @ replicate 4 0 @ [2, 0, 0, 0] @ replicate 34 0 @ ascii ''FAT32   '' @ replicate 420 0
     @ [0x55, 0xAA]"

text \<open>
  The first sector of a GPT header: the signature, the partition entry array at sector
  2, 8 entries of 128 bytes.
\<close>

definition sample_gpt_header_sector :: "uint8 list" where
  "sample_gpt_header_sector =
     ascii ''EFI PART'' @ replicate 64 0 @ [2, 0, 0, 0, 0, 0, 0, 0] @ [8, 0, 0, 0]
     @ [128, 0, 0, 0] @ replicate 424 0"

text \<open>
  A reader on which every read succeeds and every byte is zero; a GPT header with a given
  start of the entry array, number of entries and entry size; an object on such a disk
  whose header announces \<open>0xFFFFFFFF\<close> entries of 128 bytes in sectors of 512 bytes.
\<close>

definition every_sector_blank :: SectorReader where
  "every_sector_blank =
     \<lparr> reader_readSector = (\<lambda>sector sz. Some (replicate (unat sz) 0)),
       reader_getBytesPerSector = Some 512 \<rparr>"

definition gpt_header :: "uint64 \<Rightarrow> uint32 \<Rightarrow> uint32 \<Rightarrow> GPTHeader" where
  "gpt_header lba n sz =
     \<lparr> Signature = ascii ''EFI PART'', Revision = 0x10000, HeaderSize = 92, HeaderCRC32 = 0,
       CurrentLBA = 1, BackupLBA = 0, FirstUsableLBA = 34, LastUsableLBA = 0,
       DiskGUID = replicate 16 0, PartitionEntryLBA = lba, NumberOfEntries = n,
       SizeOfEntry = sz, PartitionEntryArrayCRC32 = 0 \<rparr>"

definition endless_gpt :: DriveHandler where
  "endless_gpt =
     raw_storage\<lparr>driveType := PHYSICAL_DRIVE, sectorReader := Some every_sector_blank,
                  bytesPerSector := 512, gpt := gpt_header 2 0xFFFFFFFF 128\<rparr>"

text \<open>
  What stays true at the head of the outer loop of \<^verbatim>\<open>getGPTPartitions\<close> on that
  object: the index is a multiple of 4.
\<close>

definition endless_inv :: "uint32 \<Rightarrow> uint32 \<Rightarrow> uint32 \<Rightarrow> DriveHandler \<Rightarrow> bool" where
  "endless_inv sz eps i s =
     (sz = 128 \<and> eps = 4 \<and> unat i mod 4 = 0 \<and> NumberOfEntries (gpt s) = 0xFFFFFFFF
      \<and> bytesPerSector s = 512 \<and> sectorReader s = Some every_sector_blank)"

text \<open>A sector with one 256-byte partition entry whose type GUID is not zero, and an empty one.\<close>

definition large_entries_sector :: "uint8 list" where
  "large_entries_sector =
     [0xA2, 0xA0, 0xD0, 0xEB, 0xE5, 0xB9, 0x33, 0x44, 0x87, 0xC0, 0x68, 0xB6, 0xB7, 0x26, 0x99, 0xC7]
     @ replicate 240 0 @ replicate 256 0"

definition large_entries_gpt :: DriveHandler where
  "large_entries_gpt =
     (handler_on (sectors [blank_sector, blank_sector, large_entries_sector]))
       \<lparr>bytesPerSector := 512, gpt := gpt_header 2 2 256\<rparr>"

definition sample_partition :: "uint8 \<Rightarrow> uint32 \<Rightarrow> uint32 \<Rightarrow> MBRPartitionEntry" where
  "sample_partition type lba count =
     \<lparr> BootIndicator = 0, StartHead = 0, StartSector = 0, StartCylinder = 0, Type = type,
       EndHead = 0, EndSector = 0, EndCylinder = 0, StartLBA = lba, TotalSectors = count \<rparr>"

text \<open>
  An object whose MBR partition list holds a FAT32 partition, an NTFS partition and a
  second FAT32 partition, and a recovery engine whose scan throws on the first of them.
\<close>

definition three_partitions :: DriveHandler where
  "three_partitions =
     raw_storage\<lparr>partitionsMBR := [sample_partition 0x0C 2048 204800,
                                      sample_partition 0x07 206848 4096,
                                      sample_partition 0x0C 210944 16384]\<rparr>"

definition failing_env :: environment where
  "failing_env =
     (sample_env (sectors []))
       \<lparr>FAT32Recovery_scanForDeletedFiles := (\<lambda>dev. dev \<noteq> PhysicalDrive [] 2048)\<rparr>"

section \<open>Properties\<close>

lemmas sample_defs = sample_env_def sample_config_def raw_storage_def handler_on_def
  image_reader_def sectors_def

lemmas char_class_defs = isdigit_def iswalpha_def towupper_def digits_def
  upper_case_letters_def lower_case_letters_def

subsection \<open>Classification of the drive specification\<close>

lemma towupper_cases:
  "(c \<notin> set lower_case_letters \<and> towupper c = c)
   \<or> (c \<in> set lower_case_letters \<and> towupper c \<in> set upper_case_letters)"
proof (cases "map_of (zip lower_case_letters upper_case_letters) c")
  case None
  have "length lower_case_letters = length upper_case_letters"
    by (simp add: lower_case_letters_def upper_case_letters_def)
  with None have "c \<notin> set lower_case_letters"
    by (simp add: map_of_zip_is_None)
  with None show ?thesis by (simp add: towupper_def)
next
  case (Some u)
  then have "(c, u) \<in> set (zip lower_case_letters upper_case_letters)"
    by (rule map_of_SomeD)
  then have "c \<in> set lower_case_letters" and "u \<in> set upper_case_letters"
    by (auto dest: set_zip_leftD set_zip_rightD)
  with Some show ?thesis by (simp add: towupper_def)
qed

lemma letters_not_digits:
  "c \<in> set lower_case_letters \<Longrightarrow> c \<notin> set digits"
  "c \<in> set upper_case_letters \<Longrightarrow> c \<notin> set digits"
  "c \<in> set lower_case_letters \<Longrightarrow> c \<noteq> CHR '':''"
  "c \<in> set upper_case_letters \<Longrightarrow> c \<noteq> CHR '':''"
  by (auto simp: lower_case_letters_def upper_case_letters_def digits_def)

lemma iswalpha_towupper: "iswalpha (towupper c) = iswalpha c"
  using towupper_cases [of c] by (auto simp: iswalpha_def)

lemma towupper_colon: "(towupper c = CHR '':'') = (c = CHR '':'')"
  using towupper_cases [of c] letters_not_digits(3,4) by metis

lemma isdigit_towupper: "isdigit (towupper c) = isdigit c"
  using towupper_cases [of c] letters_not_digits(1,2) unfolding isdigit_def by metis

lemma towupper_digit: "isdigit c \<Longrightarrow> towupper c = c"
  using towupper_cases [of c] letters_not_digits(1) unfolding isdigit_def by metis

lemma iswalpha_not_digit: "iswalpha c \<Longrightarrow> \<not> isdigit c"
  using letters_not_digits(1,2) unfolding isdigit_def iswalpha_def by metis

lemma wstring_find_length: "wstring_find s pat = Some n \<Longrightarrow> length pat \<le> length s"
proof (induction s arbitrary: n)
  case Nil
  then show ?case by (simp split: if_splits)
next
  case (Cons c cs)
  show ?case
  proof (cases "take (length pat) (c # cs) = pat")
    case True
    then have "length pat = length (take (length pat) (c # cs))" by simp
    then show ?thesis by simp
  next
    case False
    with Cons.prems obtain m where "wstring_find cs pat = Some m" by auto
    then have "length pat \<le> length cs" by (rule Cons.IH)
    then show ?thesis by simp
  qed
qed

lemma names_physical_drive_long: "names_physical_drive p \<Longrightarrow> 13 \<le> length p"
  unfolding names_physical_drive_def using wstring_find_length [of "map towupper p" "''PHYSICALDRIVE''"]
  by auto

lemma last_map_towupper: "p \<noteq> [] \<Longrightarrow> map towupper p ! (length p - 1) = towupper (last p)"
  by (simp add: last_conv_nth)

lemma determineDriveType_single_digit:
  "single_digit p \<Longrightarrow>
   determineDriveType p s = (PHYSICAL_DRIVE, set_drivePath (device_prefix @ ''PhysicalDrive'' @ p) s)"
  by (cases p) (auto simp: determineDriveType_def single_digit_def)

lemma determineDriveType_names_physical_drive:
  assumes "names_physical_drive p"
  shows "determineDriveType p s
         = (PHYSICAL_DRIVE, set_drivePath (device_prefix @ ''PhysicalDrive'' @ [last p]) s)"
proof -
  from assms have len: "13 \<le> length p" by (rule names_physical_drive_long)
  then have ne: "p \<noteq> []" by auto
  from assms have d: "isdigit (last p)" by (simp add: names_physical_drive_def)
  have l: "map towupper p ! (length p - 1) = last p"
    using last_map_towupper [OF ne] towupper_digit [OF d] by simp
  from assms have f: "wstring_find (map towupper p) ''PHYSICALDRIVE'' \<noteq> None"
    by (simp add: names_physical_drive_def)
  from len have n1: "length p \<noteq> 1" by simp
  show ?thesis
    using n1 f d l by (simp add: determineDriveType_def Let_def)
qed

lemma determineDriveType_drive_letter:
  assumes "drive_letter p"
  shows "determineDriveType p s
         = (LOGICAL_DRIVE, set_drivePath (device_prefix @ [towupper (hd p), CHR '':'']) s)"
proof -
  from assms consider c where "p = [c]" "iswalpha c" | c where "p = [c, CHR '':'']" "iswalpha c"
    by (cases p rule: drive_letter.cases) auto
  then show ?thesis
  proof cases
    case 1
    have "wstring_find [towupper c] ''PHYSICALDRIVE'' = None" by simp
    with 1 show ?thesis
      by (simp add: determineDriveType_def Let_def iswalpha_not_digit iswalpha_towupper)
  next
    case 2
    have "wstring_find [towupper c, CHR '':''] ''PHYSICALDRIVE'' = None" by simp
    moreover have "towupper CHR '':'' = CHR '':''" by (simp add: towupper_colon)
    ultimately show ?thesis using 2
      by (simp add: determineDriveType_def Let_def iswalpha_towupper)
  qed
qed

lemma determineDriveType_other:
  assumes "\<not> single_digit p" "\<not> names_physical_drive p" "\<not> drive_letter p"
  shows "determineDriveType p s = (UNKNOWN_DRIVE, s)"
proof -
  have a: "\<not> (length p = 1 \<and> isdigit (p ! 0))"
    using assms(1) by (cases p) (auto simp: single_digit_def)
  have b: "\<not> (wstring_find (map towupper p) ''PHYSICALDRIVE'' \<noteq> None
            \<and> isdigit (map towupper p ! (length (map towupper p) - 1)))"
  proof
    assume h: "wstring_find (map towupper p) ''PHYSICALDRIVE'' \<noteq> None
            \<and> isdigit (map towupper p ! (length (map towupper p) - 1))"
    then obtain n where "wstring_find (map towupper p) ''PHYSICALDRIVE'' = Some n" by auto
    then have "13 \<le> length p" using wstring_find_length by fastforce
    then have ne: "p \<noteq> []" by auto
    from h have "isdigit (map towupper p ! (length p - 1))" by simp
    then have "isdigit (towupper (last p))"
      by (simp only: last_map_towupper [OF ne])
    then have "isdigit (last p)" by (simp only: isdigit_towupper)
    with h assms(2) show False by (simp add: names_physical_drive_def)
  qed
  have c: "\<not> ((length (map towupper p) = 1 \<and> iswalpha (map towupper p ! 0))
             \<or> (length (map towupper p) = 2 \<and> iswalpha (map towupper p ! 0)
                 \<and> map towupper p ! 1 = CHR '':''))"
    using assms(3)
    by (cases p rule: drive_letter.cases) (auto simp: iswalpha_towupper towupper_colon)
  show ?thesis
    unfolding determineDriveType_def Let_def
    by (simp only: a b c if_False)
qed

lemma initializeSectorReader_unknown:
  "driveType s = UNKNOWN_DRIVE \<Longrightarrow> initializeSectorReader env s = (Inl could_not_determine, s)"
  by (simp add: initializeSectorReader_def could_not_determine_def)

text \<open>
  C1 (as amended). The constructor accepts three shapes of drive specification. One
  decimal digit \<open>n\<close> becomes \<^verbatim>\<open>\\.\PhysicalDrive\<close>\<open>n\<close>. A text that contains
  \<^verbatim>\<open>PhysicalDrive\<close> in any case and ends in exactly one digit \<open>n\<close> becomes
  \<^verbatim>\<open>\\.\PhysicalDrive\<close>\<open>n\<close> too. A letter, with or without a colon after it,
  becomes the logical volume \<^verbatim>\<open>\\.\X:\<close> with the letter in upper case. In these
  three cases the only device operation of the constructor is opening the reader. A
  text that is not one digit, not a letter with an optional colon, and not a text that
  contains \<^verbatim>\<open>PhysicalDrive\<close> and ends in a digit makes the constructor throw
  \<^verbatim>\<open>std::runtime_error\<close> with no reader created and nothing opened or read.
\<close>

theorem classify_three_shapes:
  fixes env :: environment and cfg :: Config and raw :: DriveHandler
  shows
   "let r = DriveHandler_ctor env cfg raw in
    (single_digit (drivePath cfg) \<longrightarrow>
       fst r = Inr () \<and> driveType (snd r) = PHYSICAL_DRIVE
       \<and> drivePath (config (snd r)) = device_prefix @ ''PhysicalDrive'' @ drivePath cfg
       \<and> trace (snd r) = [OpenDrive (PhysicalDrive (drivePath (config (snd r))) 0)])
  \<and> (names_physical_drive (drivePath cfg) \<and> \<not> isdigit (last (butlast (drivePath cfg))) \<longrightarrow>
       fst r = Inr () \<and> driveType (snd r) = PHYSICAL_DRIVE
       \<and> drivePath (config (snd r)) = device_prefix @ ''PhysicalDrive'' @ [last (drivePath cfg)]
       \<and> trace (snd r) = [OpenDrive (PhysicalDrive (drivePath (config (snd r))) 0)])
  \<and> (drive_letter (drivePath cfg) \<longrightarrow>
       fst r = Inr () \<and> driveType (snd r) = LOGICAL_DRIVE
       \<and> drivePath (config (snd r)) = device_prefix @ [towupper (hd (drivePath cfg)), CHR '':'']
       \<and> trace (snd r) = [OpenDrive (LogicalDrive (drivePath (config (snd r))))])
  \<and> (\<not> single_digit (drivePath cfg) \<and> \<not> names_physical_drive (drivePath cfg)
       \<and> \<not> drive_letter (drivePath cfg) \<longrightarrow>
       fst r = Inl could_not_determine \<and> driveType (snd r) = UNKNOWN_DRIVE
       \<and> sectorReader (snd r) = None \<and> trace (snd r) = [])"
  by (auto simp: DriveHandler_ctor_def determineDriveType_single_digit
        determineDriveType_names_physical_drive determineDriveType_drive_letter
        determineDriveType_other initializeSectorReader_def set_drivePath_def
        setSectorReader_def log_event_def could_not_determine_def Let_def)

theorem classify_three_shapes_witness:
  "single_digit ''7''
   \<and> fst (DriveHandler_ctor (sample_env (sectors [])) (sample_config ''7'') raw_storage) = Inr ()
   \<and> drivePath (config (snd (DriveHandler_ctor (sample_env (sectors [])) (sample_config ''7'') raw_storage)))
       = device_prefix @ ''PhysicalDrive7''
   \<and> names_physical_drive ''physicaldrive3'' \<and> \<not> isdigit (last (butlast ''physicaldrive3''))
   \<and> drivePath (config (snd (DriveHandler_ctor (sample_env (sectors [])) (sample_config ''physicaldrive3'') raw_storage)))
       = device_prefix @ ''PhysicalDrive3''
   \<and> drive_letter ''e:''
   \<and> drivePath (config (snd (DriveHandler_ctor (sample_env (sectors [])) (sample_config ''e:'') raw_storage)))
       = device_prefix @ ''E:''
   \<and> \<not> single_digit ''disk'' \<and> \<not> names_physical_drive ''disk'' \<and> \<not> drive_letter ''disk''
   \<and> fst (DriveHandler_ctor (sample_env (sectors [])) (sample_config ''disk'') raw_storage)
       = Inl could_not_determine
   \<and> trace (snd (DriveHandler_ctor (sample_env (sectors [])) (sample_config ''disk'') raw_storage)) = []"
proof -
  have a: "single_digit ''7''"
    by (simp add: single_digit_def isdigit_def digits_def)
  have b: "names_physical_drive ''physicaldrive3'' \<and> \<not> isdigit (last (butlast ''physicaldrive3''))"
    by (simp add: names_physical_drive_def char_class_defs)
  have c: "drive_letter ''e:''"
    by (simp add: char_class_defs)
  have d: "\<not> single_digit ''disk'' \<and> \<not> names_physical_drive ''disk'' \<and> \<not> drive_letter ''disk''"
    by (simp add: single_digit_def names_physical_drive_def char_class_defs)
  have u: "towupper CHR ''e'' = CHR ''E''"
    by (simp add: char_class_defs)
  show ?thesis
    using a b c d u
      classify_three_shapes [of "sample_env (sectors [])" "sample_config ''7''" raw_storage]
      classify_three_shapes [of "sample_env (sectors [])" "sample_config ''physicaldrive3''" raw_storage]
      classify_three_shapes [of "sample_env (sectors [])" "sample_config ''e:''" raw_storage]
      classify_three_shapes [of "sample_env (sectors [])" "sample_config ''disk''" raw_storage]
    by (simp add: Let_def sample_config_def)
qed

text \<open>
  C1 as stated fails in both directions: \<^verbatim>\<open>PhysicalDrive1\<close> is neither a bare number
  nor a letter with an optional colon, and it is accepted as a physical drive; \<^verbatim>\<open>12\<close>
  is a bare number, and it is rejected.
\<close>

theorem classify_two_shapes_counterexample:
  "\<not> bare_number ''PhysicalDrive1'' \<and> \<not> drive_letter ''PhysicalDrive1''
   \<and> fst (DriveHandler_ctor (sample_env (sectors [])) (sample_config ''PhysicalDrive1'') raw_storage) = Inr ()
   \<and> driveType (snd (DriveHandler_ctor (sample_env (sectors [])) (sample_config ''PhysicalDrive1'') raw_storage))
       = PHYSICAL_DRIVE
   \<and> bare_number ''12''
   \<and> fst (DriveHandler_ctor (sample_env (sectors [])) (sample_config ''12'') raw_storage)
       = Inl could_not_determine"
  by (simp add: bare_number_def DriveHandler_ctor_def determineDriveType_def
        initializeSectorReader_def set_drivePath_def setSectorReader_def log_event_def
        could_not_determine_def Let_def sample_defs char_class_defs device_prefix_def)

subsection \<open>Partition scheme\<close>

lemma le_word_two_bytes:
  "((le_word [a, b] :: uint16) = 0xAA55) = (a = 0x55 \<and> b = 0xAA)"
proof
  assume h: "(le_word [a, b] :: uint16) = 0xAA55"
  have ua: "unat a < 256" using unsigned_less [of a] by simp
  have ub: "unat b < 256" using unsigned_less [of b] by simp
  have ua': "unat a mod 65536 = unat a" using ua by simp
  have ub': "unat b mod 65536 = unat b" using ub by simp
  have "unat (le_word [a, b] :: uint16) = (unat a + 256 * unat b) mod 65536"
    by (simp add: unat_word_ariths unsigned_ucast_eq take_bit_eq_mod ua' ub' mod_simps)
  also have "\<dots> = unat a + 256 * unat b" using ua ub by simp
  finally have s: "unat a + 256 * unat b = 43605" using h by simp
  have "unat a = (unat a + 256 * unat b) mod 256" using ua by simp
  then have a: "unat a = 85" by (simp only: s) simp
  with s have "unat a = 85 \<and> unat b = 170" by simp
  then have "unat a = unat (0x55 :: uint8) \<and> unat b = unat (0xAA :: uint8)" by simp
  then show "a = 0x55 \<and> b = 0xAA" by (simp only: word_unat_eq_iff)
next
  assume "a = 0x55 \<and> b = 0xAA"
  then show "(le_word [a, b] :: uint16) = 0xAA55" by simp
qed

lemma slice_two:
  "off + 2 \<le> length bs \<Longrightarrow> slice off 2 bs = [bs ! off, bs ! (off + 1)]"
  by (simp add: slice_def list_eq_iff_nth_eq nth_Cons' numeral_2_eq_2 less_Suc_eq)

lemma mbr_signature_bytes:
  "length bs = 512 \<Longrightarrow>
   (signature (decode_MBRHeader bs) = 0xAA55) = (bs ! 510 = 0x55 \<and> bs ! 511 = 0xAA)"
  using slice_two [of 510 bs] le_word_two_bytes [of "bs ! 510" "bs ! 511"]
  by (simp add: decode_MBRHeader_def)

lemma gpt_signature_bytes:
  "memcmp_eq (Signature (decode_GPTHeader bs)) (ascii ''EFI PART'') 8
   = (take 8 bs = ascii ''EFI PART'')"
  by (simp add: memcmp_eq_def decode_GPTHeader_def slice_def ascii_def)

text \<open>A field that the delivered bytes cover is the decoding of these bytes.\<close>

lemma read_into_slice:
  "off + n \<le> length bs \<Longrightarrow> 0 < n \<Longrightarrow> read_into off n member bs = slice off n bs"
  by (simp add: read_into_def slice_def)

lemma read_word_into_slice:
  "off + n \<le> length bs \<Longrightarrow> 0 < n \<Longrightarrow>
   read_word_into off n member bs = le_word (slice off n bs)"
  by (simp add: read_word_into_def read_into_slice)

lemma slice_slice:
  "k + n \<le> m \<Longrightarrow> slice k n (slice off m bs) = slice (off + k) n bs"
  by (simp add: slice_def drop_take min_def add.commute)

lemma read_into_MBRPartitionEntry_full:
  "off + 16 \<le> length bs \<Longrightarrow>
   read_into_MBRPartitionEntry off e bs = decode_MBRPartitionEntry (slice off 16 bs)"
  by (simp add: read_into_MBRPartitionEntry_def decode_MBRPartitionEntry_def
        read_word_into_slice slice_slice)

lemma read_into_MBRHeader_full:
  "512 \<le> length bs \<Longrightarrow> read_into_MBRHeader m bs = decode_MBRHeader bs"
  by (simp add: read_into_MBRHeader_def decode_MBRHeader_def read_into_slice
        read_word_into_slice read_into_MBRPartitionEntry_full)

lemma read_into_GPTHeader_full:
  "512 \<le> length bs \<Longrightarrow> read_into_GPTHeader g bs = decode_GPTHeader bs"
  by (simp add: read_into_GPTHeader_def decode_GPTHeader_def read_into_slice
        read_word_into_slice)

lemma read_into_BootSector_full:
  "512 \<le> length bs \<Longrightarrow> read_into_BootSector b bs = decode_BootSector bs"
  by (simp add: read_into_BootSector_def decode_BootSector_def read_into_slice
        read_word_into_slice)

lemma read_into_signature:
  "8 \<le> length bs \<Longrightarrow> read_into 0 8 member bs = take 8 bs"
  by (simp add: read_into_slice slice_def)

lemma isGPT_signature:
  "memcmp_eq (Signature (read_into_GPTHeader g bs)) (ascii ''EFI PART'') 8
   = (take 8 (read_into 0 8 (Signature g) bs) = ascii ''EFI PART'')"
  by (simp add: memcmp_eq_def read_into_GPTHeader_def ascii_def)

lemma getPartitionScheme_reads:
  assumes "sectorReader s = Some reader"
    and "reader_readSector reader 0 sizeof_MBRHeader = Some sector0"
    and "reader_readSector reader 1 sizeof_GPTHeader = Some sector1"
  shows "getPartitionScheme s =
           (Inr (if take 8 (read_into 0 8 (Signature (gpt s)) sector1) = ascii ''EFI PART''
                 then GPT_SCHEME
                 else if signature (read_into_MBRHeader (mbr s) sector0) = 0xAA55
                 then MBR_SCHEME
                 else UNKNOWN_SCHEME),
            s\<lparr>mbr := read_into_MBRHeader (mbr s) sector0,
              gpt := read_into_GPTHeader (gpt s) sector1,
              trace := trace s @ [ReadSector 0 sizeof_MBRHeader, ReadSector 1 sizeof_GPTHeader]\<rparr>)"
  using assms
  by (simp add: getPartitionScheme_def readMBR_def readGPT_def readSector_def log_event_def
        isGPT_def isMBR_def Let_def isGPT_signature)

text \<open>
  C2. \<^verbatim>\<open>getPartitionScheme\<close> reads sector 0 and then sector 1, whatever it finds in
  them. Its result is GPT when the signature field of the \<^verbatim>\<open>gpt\<close> member, once sector 1
  has been read into the member, holds the eight characters \<^verbatim>\<open>EFI PART\<close>, also when the
  MBR signature is present; otherwise MBR when the last two bytes of sector 0 are
  \<open>0x55\<close>, \<open>0xAA\<close>; otherwise unknown. When the reader delivered at least eight bytes of
  sector 1, the signature field holds the first eight bytes of sector 1.
\<close>

theorem getPartitionScheme_GPT_precedence:
  assumes "sectorReader s = Some reader"
    and "reader_readSector reader 0 sizeof_MBRHeader = Some sector0"
    and "reader_readSector reader 1 sizeof_GPTHeader = Some sector1"
    and "length sector0 = 512"
  shows "fst (getPartitionScheme s) =
           Inr (if take 8 (read_into 0 8 (Signature (gpt s)) sector1) = ascii ''EFI PART''
                then GPT_SCHEME
                else if sector0 ! 510 = 0x55 \<and> sector0 ! 511 = 0xAA then MBR_SCHEME
                else UNKNOWN_SCHEME)
       \<and> (8 \<le> length sector1 \<longrightarrow>
            fst (getPartitionScheme s) =
              Inr (if take 8 sector1 = ascii ''EFI PART'' then GPT_SCHEME
                   else if sector0 ! 510 = 0x55 \<and> sector0 ! 511 = 0xAA then MBR_SCHEME
                   else UNKNOWN_SCHEME))
       \<and> trace (snd (getPartitionScheme s)) =
           trace s @ [ReadSector 0 sizeof_MBRHeader, ReadSector 1 sizeof_GPTHeader]"
proof -
  have m: "read_into_MBRHeader (mbr s) sector0 = decode_MBRHeader sector0"
    using assms(4) by (simp add: read_into_MBRHeader_full)
  have g: "take 8 (read_into 0 8 (Signature (gpt s)) sector1) = take 8 sector1"
    if "8 \<le> length sector1"
    using that by (simp add: read_into_signature)
  have r: "fst (getPartitionScheme s) =
           Inr (if take 8 (read_into 0 8 (Signature (gpt s)) sector1) = ascii ''EFI PART''
                then GPT_SCHEME
                else if sector0 ! 510 = 0x55 \<and> sector0 ! 511 = 0xAA then MBR_SCHEME
                else UNKNOWN_SCHEME)"
    using getPartitionScheme_reads [OF assms(1-3)] mbr_signature_bytes [OF assms(4)]
    by (simp add: m)
  have t: "trace (snd (getPartitionScheme s)) =
           trace s @ [ReadSector 0 sizeof_MBRHeader, ReadSector 1 sizeof_GPTHeader]"
    using getPartitionScheme_reads [OF assms(1-3)] by simp
  show ?thesis
    using r t g by simp
qed

lemma sample_lengths:
  "length sample_mbr_sector = 512" "length blank_sector = 512"
  "length sample_gpt_header_sector = 512"
  by (simp_all add: sample_mbr_sector_def blank_sector_def sample_gpt_header_sector_def
        mbr_slot_def ascii_def)

lemma sample_reads:
  "sectorReader (handler_on img) = Some (image_reader img 512)"
  "reader_readSector (image_reader (sectors [a, b]) 512) 0 n = Some (take (unat n) a)"
  "reader_readSector (image_reader (sectors [a, b]) 512) 1 n = Some (take (unat n) b)"
  by (simp_all add: sample_defs)

theorem getPartitionScheme_GPT_precedence_witness:
  "fst (getPartitionScheme (handler_on (sectors [sample_mbr_sector, sample_gpt_header_sector])))
     = Inr GPT_SCHEME
   \<and> fst (getPartitionScheme (handler_on (sectors [sample_mbr_sector, blank_sector])))
     = Inr MBR_SCHEME
   \<and> fst (getPartitionScheme (handler_on (sectors [blank_sector, blank_sector])))
     = Inr UNKNOWN_SCHEME"
proof -
  have m: "sample_mbr_sector ! 510 = 0x55 \<and> sample_mbr_sector ! 511 = 0xAA"
    by (simp add: sample_mbr_sector_def mbr_slot_def nth_append)
  have b: "blank_sector ! 510 = 0"
    by (simp add: blank_sector_def)
  have g: "take 8 sample_gpt_header_sector = ascii ''EFI PART''"
    by (simp add: sample_gpt_header_sector_def ascii_def)
  have e: "take 8 blank_sector \<noteq> ascii ''EFI PART''"
  proof
    assume "take 8 blank_sector = ascii ''EFI PART''"
    then have "take 8 blank_sector ! 0 = ascii ''EFI PART'' ! 0" by simp
    then show False by (simp add: blank_sector_def ascii_def)
  qed
  have la: "length (ascii ''EFI PART'') = 8"
    by (simp add: ascii_def)
  show ?thesis
    using m b g e la sample_lengths
      getPartitionScheme_GPT_precedence [of "handler_on (sectors [sample_mbr_sector, sample_gpt_header_sector])"
        "image_reader (sectors [sample_mbr_sector, sample_gpt_header_sector]) 512"
        sample_mbr_sector sample_gpt_header_sector]
      getPartitionScheme_GPT_precedence [of "handler_on (sectors [sample_mbr_sector, blank_sector])"
        "image_reader (sectors [sample_mbr_sector, blank_sector]) 512"
        sample_mbr_sector blank_sector]
      getPartitionScheme_GPT_precedence [of "handler_on (sectors [blank_sector, blank_sector])"
        "image_reader (sectors [blank_sector, blank_sector]) 512"
        blank_sector blank_sector]
    by (simp add: sample_reads sizeof_MBRHeader_def sizeof_GPTHeader_def read_into_signature)
qed

subsection \<open>Sector reads\<close>

text \<open>
  C9. When the reader's \<^verbatim>\<open>readSector\<close> returns false, the wrapper throws
  \<^verbatim>\<open>std::runtime_error("Cannot read sector.")\<close> and hands no buffer contents to its
  caller; when it returns true, the wrapper returns normally with the bytes read. In both
  cases the object is unchanged apart from the logged read.
\<close>

theorem readSector_false_is_fatal:
  assumes "sectorReader s = Some reader"
  shows "(reader_readSector reader sector sz = None \<longrightarrow>
            readSector sector sz s =
              (Inl (RuntimeError ''Cannot read sector.''), log_event (ReadSector sector sz) s))
       \<and> (\<forall>bs. reader_readSector reader sector sz = Some bs \<longrightarrow>
            readSector sector sz s = (Inr bs, log_event (ReadSector sector sz) s))"
  using assms by (simp add: readSector_def)

theorem readSector_false_is_fatal_witness:
  "readSector 0 512 (handler_on (sectors [blank_sector]))
     = (Inr blank_sector, log_event (ReadSector 0 512) (handler_on (sectors [blank_sector])))
   \<and> readSector 1 512 (handler_on (sectors [blank_sector]))
     = (Inl (RuntimeError ''Cannot read sector.''),
        log_event (ReadSector 1 512) (handler_on (sectors [blank_sector])))"
proof -
  have r: "sectorReader (handler_on (sectors [blank_sector]))
           = Some (image_reader (sectors [blank_sector]) 512)"
    by (simp add: handler_on_def)
  have a: "reader_readSector (image_reader (sectors [blank_sector]) 512) 0 512 = Some blank_sector"
    by (simp add: image_reader_def sectors_def blank_sector_def)
  have b: "reader_readSector (image_reader (sectors [blank_sector]) 512) 1 512 = None"
    by (simp add: image_reader_def sectors_def)
  show ?thesis
    using a b readSector_false_is_fatal [OF r, of 0 512] readSector_false_is_fatal [OF r, of 1 512]
    by simp
qed

subsection \<open>MBR partition table\<close>

text \<open>
  C5. \<^verbatim>\<open>getMBRPartitions\<close> appends to \<^verbatim>\<open>partitionsMBR\<close> (empty in a new object)
  the slots of the four-slot partition table whose \<^verbatim>\<open>TotalSectors\<close> is not zero, in
  table order, and no slot whose \<^verbatim>\<open>TotalSectors\<close> is zero.
\<close>

theorem getMBRPartitions_nonzero_slots:
  assumes "length (PartitionTable (mbr s)) = 4"
  shows "partitionsMBR (getMBRPartitions s)
         = partitionsMBR s @ filter (\<lambda>p. TotalSectors p \<noteq> 0) (PartitionTable (mbr s))"
proof -
  from assms obtain a b c d where t: "PartitionTable (mbr s) = [a, b, c, d]"
    by (auto simp: length_Suc_conv numeral_eq_Suc)
  show ?thesis
    by (simp add: getMBRPartitions_def t)
qed

lemma decode_MBRHeader_slots: "length (PartitionTable (decode_MBRHeader bs)) = 4"
  by (simp add: decode_MBRHeader_def)

theorem getMBRPartitions_nonzero_slots_witness:
  "length (PartitionTable (mbr (raw_storage\<lparr>mbr := decode_MBRHeader sample_mbr_sector\<rparr>))) = 4
   \<and> map StartLBA (partitionsMBR (getMBRPartitions (raw_storage\<lparr>mbr := decode_MBRHeader sample_mbr_sector\<rparr>)))
     = [2048, 206848, 210944]"
proof -
  have l: "length (PartitionTable (mbr (raw_storage\<lparr>mbr := decode_MBRHeader sample_mbr_sector\<rparr>))) = 4"
    by (simp add: decode_MBRHeader_slots)
  have e: "partitionsMBR (raw_storage\<lparr>mbr := decode_MBRHeader sample_mbr_sector\<rparr>) = []"
    by (simp add: raw_storage_def)
  have f: "map StartLBA (filter (\<lambda>p. TotalSectors p \<noteq> 0) (PartitionTable (decode_MBRHeader sample_mbr_sector)))
           = [2048, 206848, 210944]"
    by (simp add: decode_MBRHeader_def decode_MBRPartitionEntry_def sample_mbr_sector_def mbr_slot_def slice_def)
  show ?thesis
    using l e f getMBRPartitions_nonzero_slots [OF l] by simp
qed

subsection \<open>Boot sector\<close>

lemma readBootSector_reads:
  assumes "sectorReader s = Some reader"
    and "reader_readSector reader (ucast sector) 512 = Some bs"
  shows "readBootSector sector s =
           (Inr (),
            (log_event (ReadSector (ucast sector) 512) s)
              \<lparr>bootSector := read_into_BootSector (bootSector s) bs,
                fatStartSector :=
                  ucast (ReservedSectorCount (read_into_BootSector (bootSector s) bs)),
                dataStartSector :=
                  ucast (ReservedSectorCount (read_into_BootSector (bootSector s) bs))
                  + ucast (NumFATs (read_into_BootSector (bootSector s) bs))
                    * FATSize32 (read_into_BootSector (bootSector s) bs),
                rootDirCluster := RootCluster (read_into_BootSector (bootSector s) bs)\<rparr>)"
  using assms by (simp add: readBootSector_def readSector_def Let_def log_event_def)

text \<open>
  Where the reader fills the 512 bytes of the buffer and the sum fits 32 bits, the
  geometry is as intended: \<open>fatStartSector = ReservedSectorCount\<close> and
  \<open>dataStartSector = fatStartSector + NumFATs * FATSize32\<close> on numbers, both computed
  from the sector just read and from nothing else.
\<close>

lemma readBootSector_geometry_within_32_bits:
  assumes "sectorReader s = Some reader"
    and "reader_readSector reader (ucast sector) 512 = Some bs"
    and "length bs = 512"
    and "unat (ReservedSectorCount (decode_BootSector bs))
         + unat (NumFATs (decode_BootSector bs)) * unat (FATSize32 (decode_BootSector bs)) < 2 ^ 32"
  shows "fst (readBootSector sector s) = Inr ()"
    and "bootSector (snd (readBootSector sector s)) = decode_BootSector bs"
    and "unat (fatStartSector (snd (readBootSector sector s)))
         = unat (ReservedSectorCount (decode_BootSector bs))"
    and "unat (dataStartSector (snd (readBootSector sector s)))
         = unat (fatStartSector (snd (readBootSector sector s)))
           + unat (NumFATs (decode_BootSector bs)) * unat (FATSize32 (decode_BootSector bs))"
proof -
  define b where "b = decode_BootSector bs"
  have full: "read_into_BootSector (bootSector s) bs = decode_BootSector bs"
    using assms(3) by (simp add: read_into_BootSector_full)
  note r = readBootSector_reads [OF assms(1,2), unfolded full, folded b_def]
  have u16: "unat (ucast (ReservedSectorCount b) :: uint32) = unat (ReservedSectorCount b)"
    using unsigned_less [of "ReservedSectorCount b", where 'a=nat]
    by (simp add: unsigned_ucast_eq take_bit_eq_mod)
  have u8: "unat (ucast (NumFATs b) :: uint32) = unat (NumFATs b)"
    using unsigned_less [of "NumFATs b", where 'a=nat]
    by (simp add: unsigned_ucast_eq take_bit_eq_mod)
  from assms(4) have lt: "unat (ReservedSectorCount b) + unat (NumFATs b) * unat (FATSize32 b) < 2 ^ 32"
    by (simp only: b_def)
  then have m: "unat (NumFATs b) * unat (FATSize32 b) < 2 ^ 32" by simp
  have p: "unat (ucast (NumFATs b) * FATSize32 b) = unat (NumFATs b) * unat (FATSize32 b)"
    using m by (simp add: unat_word_ariths u8)
  have d: "unat (ucast (ReservedSectorCount b) + ucast (NumFATs b) * FATSize32 b :: uint32)
           = unat (ReservedSectorCount b) + unat (NumFATs b) * unat (FATSize32 b)"
    using lt by (simp add: unat_word_ariths(1) u16 p)
  show "fst (readBootSector sector s) = Inr ()" by (simp add: r)
  show "bootSector (snd (readBootSector sector s)) = decode_BootSector bs"
    by (simp add: r b_def)
  show "unat (fatStartSector (snd (readBootSector sector s)))
         = unat (ReservedSectorCount (decode_BootSector bs))"
    by (simp add: r u16 b_def [symmetric])
  show "unat (dataStartSector (snd (readBootSector sector s)))
         = unat (fatStartSector (snd (readBootSector sector s)))
           + unat (NumFATs (decode_BootSector bs)) * unat (FATSize32 (decode_BootSector bs))"
    by (simp add: r d u16 b_def [symmetric])
qed

lemma sample_boot_sector_read:
  assumes "length l = 8"
  shows "length (sample_boot_sector l) = 512"
    and "sectorReader (handler_on (sectors [sample_boot_sector l]))
         = Some (image_reader (sectors [sample_boot_sector l]) 512)"
    and "reader_readSector (image_reader (sectors [sample_boot_sector l]) 512)
           (ucast (0 :: uint32)) 512 = Some (sample_boot_sector l)"
    and "FileSystemType (decode_BootSector (sample_boot_sector l)) = l"
  using assms
  by (simp_all add: sample_boot_sector_def handler_on_def image_reader_def sectors_def
        decode_BootSector_def slice_def)

lemma sample_boot_fields:
  "ReservedSectorCount (decode_BootSector (sample_boot_sector l)) = 32"
  "NumFATs (decode_BootSector (sample_boot_sector l)) = 2"
  "FATSize32 (decode_BootSector (sample_boot_sector l)) = 1000"
  by (simp_all add: decode_BootSector_def sample_boot_sector_def slice_def)

lemma readBootSector_geometry_example:
  "fst (readBootSector 0 (handler_on (sectors [sample_boot_sector (ascii ''FAT32   '')]))) = Inr ()
   \<and> unat (fatStartSector (snd (readBootSector 0 (handler_on (sectors [sample_boot_sector (ascii ''FAT32   '')]))))) = 32
   \<and> unat (dataStartSector (snd (readBootSector 0 (handler_on (sectors [sample_boot_sector (ascii ''FAT32   '')]))))) = 2032"
proof -
  have l: "length (ascii ''FAT32   '') = 8" by (simp add: ascii_def)
  note s = sample_boot_sector_read [OF l]
  have f: "unat (ReservedSectorCount (decode_BootSector (sample_boot_sector (ascii ''FAT32   ''))))
         + unat (NumFATs (decode_BootSector (sample_boot_sector (ascii ''FAT32   ''))))
           * unat (FATSize32 (decode_BootSector (sample_boot_sector (ascii ''FAT32   '')))) < 2 ^ 32"
    by (simp add: sample_boot_fields)
  show ?thesis
    using readBootSector_geometry_within_32_bits [OF s(2) s(3) s(1) f]
    by (simp add: sample_boot_fields)
qed

text \<open>
  The sector is read in place. Where a reader reports success and delivers fewer than
  512 bytes, the fields beyond the delivered bytes keep the values of the previous parse
  and the geometry is computed from them: after a boot sector with 1000 sectors per FAT, a
  read that delivers 7 reserved sectors and 3 FATs and stops there gives
  \<open>dataStartSector = 7 + 3 * 1000\<close>.
\<close>

lemma readBootSector_short_read_keeps_tail:
  "let s1 = snd (readBootSector 0 (handler_on (sectors [sample_boot_sector (ascii ''FAT32   '')])));
       s2 = snd (readBootSector 0
                  (s1\<lparr>sectorReader := Some (image_reader (sectors [short_boot_read]) 512)\<rparr>))
   in unat (fatStartSector s1) = 32 \<and> unat (dataStartSector s1) = 2032
    \<and> unat (rootDirCluster s1) = 2
    \<and> unat (fatStartSector s2) = 7 \<and> unat (dataStartSector s2) = 3007
    \<and> unat (rootDirCluster s2) = 2"
proof -
  let ?b = "sample_boot_sector (ascii ''FAT32   '')"
  let ?s0 = "handler_on (sectors [?b])"
  have l: "length (ascii ''FAT32   '') = 8" by (simp add: ascii_def)
  note s = sample_boot_sector_read [OF l]
  have full: "read_into_BootSector (bootSector ?s0) ?b = decode_BootSector ?b"
    using s(1) by (simp add: read_into_BootSector_full)
  note r1 = readBootSector_reads [OF s(2,3), unfolded full]
  let ?s1 = "snd (readBootSector 0 ?s0)"
  have b1: "bootSector ?s1 = decode_BootSector ?b" by (simp add: r1)
  let ?s1' = "?s1\<lparr>sectorReader := Some (image_reader (sectors [short_boot_read]) 512)\<rparr>"
  have a: "sectorReader ?s1' = Some (image_reader (sectors [short_boot_read]) 512)" by simp
  have c: "reader_readSector (image_reader (sectors [short_boot_read]) 512) (ucast (0 :: uint32)) 512
           = Some short_boot_read"
    by (simp add: image_reader_def sectors_def short_boot_read_def)
  have b1': "bootSector ?s1' = decode_BootSector ?b" by (simp add: b1)
  note r2 = readBootSector_reads [OF a c, unfolded b1']
  have g: "RootCluster (decode_BootSector ?b) = 2"
    by (simp add: decode_BootSector_def sample_boot_sector_def slice_def)
  have f: "ReservedSectorCount (read_into_BootSector (decode_BootSector ?b) short_boot_read) = 7"
    "NumFATs (read_into_BootSector (decode_BootSector ?b) short_boot_read) = 3"
    "FATSize32 (read_into_BootSector (decode_BootSector ?b) short_boot_read) = 1000"
    "RootCluster (read_into_BootSector (decode_BootSector ?b) short_boot_read) = 2"
    by (simp_all add: read_into_BootSector_def read_word_into_def read_into_def
          short_boot_read_def sample_boot_fields g)
  show ?thesis
    unfolding Let_def
    by (simp add: r2 f) (simp add: r1 sample_boot_fields g)
qed

text \<open>
  C6 fails on the code: the sum is computed in \<^verbatim>\<open>uint32_t\<close> and wraps around. For a
  boot sector with \<open>ReservedSectorCount = 65535\<close>, \<open>NumFATs = 255\<close> and
  \<open>FATSize32 = 4294967295\<close>, read in full, the parser leaves \<open>fatStartSector = 65535\<close>
  and \<open>dataStartSector = 65280\<close>: the data region would start before the FATs, and
  \<open>dataStartSector\<close> is not \<open>fatStartSector + NumFATs * FATSize32\<close>.
\<close>

theorem readBootSector_geometry_wraps:
  "let s' = snd (readBootSector 0 (handler_on (sectors [overflowing_boot_sector])));
       b = bootSector s'
   in fst (readBootSector 0 (handler_on (sectors [overflowing_boot_sector]))) = Inr ()
    \<and> b = decode_BootSector overflowing_boot_sector
    \<and> unat (ReservedSectorCount b) = 65535 \<and> unat (NumFATs b) = 255
    \<and> unat (FATSize32 b) = 4294967295
    \<and> unat (fatStartSector s') = 65535
    \<and> unat (dataStartSector s') = 65280
    \<and> unat (dataStartSector s')
        \<noteq> unat (fatStartSector s') + unat (NumFATs b) * unat (FATSize32 b)"
proof -
  have l: "length overflowing_boot_sector = 512"
    by (simp add: overflowing_boot_sector_def ascii_def)
  have r: "sectorReader (handler_on (sectors [overflowing_boot_sector]))
           = Some (image_reader (sectors [overflowing_boot_sector]) 512)"
    by (simp add: handler_on_def)
  have a: "reader_readSector (image_reader (sectors [overflowing_boot_sector]) 512)
             (ucast (0 :: uint32)) 512 = Some overflowing_boot_sector"
    using l by (simp add: image_reader_def sectors_def)
  have full: "read_into_BootSector (bootSector (handler_on (sectors [overflowing_boot_sector])))
                overflowing_boot_sector = decode_BootSector overflowing_boot_sector"
    using l by (simp add: read_into_BootSector_full)
  have f: "ReservedSectorCount (decode_BootSector overflowing_boot_sector) = 0xFFFF"
    "NumFATs (decode_BootSector overflowing_boot_sector) = 0xFF"
    "FATSize32 (decode_BootSector overflowing_boot_sector) = 0xFFFFFFFF"
    by (simp_all add: decode_BootSector_def overflowing_boot_sector_def slice_def)
  show ?thesis
    by (simp add: Let_def readBootSector_reads [OF r a] full f)
qed

text \<open>
  C3 fails on the code: \<^verbatim>\<open>find_first_of(" \0")\<close> receives a \<^verbatim>\<open>const char*\<close>,
  whose characters end at the NUL, so the label is trimmed at the first space only. A
  label that is padded with NUL characters keeps all its eight bytes and matches none of
  the four names.
\<close>

lemma substr0_find_first_of:
  "substr0 str (find_first_of str chars) = takeWhile (\<lambda>b. b \<notin> set chars) str"
proof (cases "list_ex (\<lambda>b. b \<in> set chars) str")
  case True
  then show ?thesis
    by (simp add: substr0_def find_first_of_def takeWhile_eq_take [symmetric])
next
  case False
  then have "\<forall>b \<in> set str. b \<notin> set chars" by (simp add: list_ex_iff)
  then have a: "takeWhile (\<lambda>b. b \<notin> set chars) str = str" by (simp add: takeWhile_eq_all_conv)
  have b: "substr0 str (find_first_of str chars) = str"
    using False by (simp add: substr0_def find_first_of_def)
  show ?thesis by (simp only: a b)
qed

lemma fsType_of_label_trims_at_space_only:
  "fsType_of_label label =
     (let fsType = takeWhile (\<lambda>b. b \<noteq> 0x20) (take 8 label)
      in if fsType = ascii ''FAT32'' then FAT32_TYPE
         else if fsType = ascii ''NTFS'' then NTFS_TYPE
         else if fsType = ascii ''exFAT'' then EXFAT_TYPE
         else if fsType = ascii ''EXT4'' then EXT4_TYPE
         else UNKNOWN_TYPE)"
proof -
  have c: "c_str (ascii '' '' @ [0]) = [0x20]" by (simp add: c_str_def ascii_def)
  have l: "c_str (ascii ''FAT32'') = ascii ''FAT32''" "c_str (ascii ''NTFS'') = ascii ''NTFS''"
    "c_str (ascii ''exFAT'') = ascii ''exFAT''" "c_str (ascii ''EXT4'') = ascii ''EXT4''"
    by (simp_all add: c_str_def ascii_def)
  show ?thesis
    by (simp add: fsType_of_label_def Let_def c l substr0_find_first_of)
qed

text \<open>
  C3, at the failing input: the label \<^verbatim>\<open>NTFS\<close> followed by four NUL bytes is not
  recognised, where the same label padded with spaces is.
\<close>

theorem getFSTypeFromBootSector_NUL_padded_label:
  "fst (getFSTypeFromBootSector 0
          (handler_on (sectors [sample_boot_sector (ascii ''NTFS'' @ [0, 0, 0, 0])])))
     = Inr UNKNOWN_TYPE
   \<and> fst (getFSTypeFromBootSector 0
          (handler_on (sectors [sample_boot_sector (ascii ''NTFS    '')])))
     = Inr NTFS_TYPE"
proof -
  have l: "length (ascii ''NTFS'' @ [0, 0, 0, 0]) = 8" "length (ascii ''NTFS    '') = 8"
    by (simp_all add: ascii_def)
  note n = sample_boot_sector_read [OF l(1)] and p = sample_boot_sector_read [OF l(2)]
  have fn: "read_into_BootSector (bootSector (handler_on (sectors [sample_boot_sector (ascii ''NTFS'' @ [0, 0, 0, 0])])))
              (sample_boot_sector (ascii ''NTFS'' @ [0, 0, 0, 0]))
            = decode_BootSector (sample_boot_sector (ascii ''NTFS'' @ [0, 0, 0, 0]))"
    using n(1) by (simp add: read_into_BootSector_full)
  have fp: "read_into_BootSector (bootSector (handler_on (sectors [sample_boot_sector (ascii ''NTFS    '')])))
              (sample_boot_sector (ascii ''NTFS    ''))
            = decode_BootSector (sample_boot_sector (ascii ''NTFS    ''))"
    using p(1) by (simp add: read_into_BootSector_full)
  have tn: "fsType_of_label (ascii ''NTFS'' @ [0, 0, 0, 0]) = UNKNOWN_TYPE"
    by (simp add: fsType_of_label_trims_at_space_only ascii_def)
  have tp: "fsType_of_label (ascii ''NTFS    '') = NTFS_TYPE"
    by (simp add: fsType_of_label_trims_at_space_only ascii_def)
  show ?thesis
    by (simp add: getFSTypeFromBootSector_def readBootSector_reads [OF n(2,3)]
          readBootSector_reads [OF p(2,3)] fn fp n(4) p(4) tn tp)
qed

subsection \<open>Recovery entry point\<close>

lemma run_FAT32Recovery_events:
  "run_FAT32Recovery env dev s =
     (if recovery_returns env dev then Inr () else Inl RecoveryFailure,
      s\<lparr>trace := trace s @ engine_events env dev\<rparr>)"
  by (simp add: run_FAT32Recovery_def Let_def log_event_def recovery_returns_def
        engine_events_def recovery_events_def)

lemma recoverFAT32_over_MBR_step:
  "recoverFAT32_over_MBR env (p # ps) s =
     (if unat (Type p) = FilesystemType_value env FAT32_TYPE then
        (case run_FAT32Recovery env (PhysicalDrive (drivePath (config s)) (ucast (StartLBA p))) s of
           (Inl e, s1) \<Rightarrow> (Inl e, s1)
         | (Inr u, s1) \<Rightarrow> recoverFAT32_over_MBR env ps s1)
      else recoverFAT32_over_MBR env ps s)"
  by (simp add: getFSTypeFromMBRPartition_def recoverFromPhysicalDriveFAT32MBR_def Let_def)

lemma recoverFAT32_over_GPT_step:
  "recoverFAT32_over_GPT env (p # ps) s =
     (if take 16 (PartitionTypeGUID p) = take 16 (GUID_FAT32_TYPE env) then
        (case run_FAT32Recovery env (PhysicalDrive (drivePath (config s)) (StartingLBA p)) s of
           (Inl e, s1) \<Rightarrow> (Inl e, s1)
         | (Inr u, s1) \<Rightarrow> recoverFAT32_over_GPT env ps s1)
      else recoverFAT32_over_GPT env ps s)"
  by (simp add: getFSTypeFromGPTPartition_def recoverFromPhysicalDriveFAT32GPT_def Let_def
        memcmp_eq_def)

lemma fat32_MBR_devices_Cons:
  "fat32_MBR_devices env path (p # ps) =
     (if unat (Type p) = FilesystemType_value env FAT32_TYPE
      then PhysicalDrive path (ucast (StartLBA p)) # fat32_MBR_devices env path ps
      else fat32_MBR_devices env path ps)"
  by (simp add: fat32_MBR_devices_def)

lemma fat32_GPT_devices_Cons:
  "fat32_GPT_devices env path (p # ps) =
     (if take 16 (PartitionTypeGUID p) = take 16 (GUID_FAT32_TYPE env)
      then PhysicalDrive path (StartingLBA p) # fat32_GPT_devices env path ps
      else fat32_GPT_devices env path ps)"
  by (simp add: fat32_GPT_devices_def)

lemma visited_Cons:
  "visited env (d # ds) = (if recovery_returns env d then d # visited env ds else [d])"
  by (simp add: visited_def)

lemma visited_all:
  "list_all (recovery_returns env) ds \<Longrightarrow>
   concat (map (engine_events env) (visited env ds)) = concat (map recovery_events ds)"
  by (induction ds) (simp_all add: visited_def engine_events_def recovery_returns_def)

lemma recoverFAT32_over_MBR_pass:
  "recoverFAT32_over_MBR env ps s =
     (if list_all (recovery_returns env) (fat32_MBR_devices env (drivePath (config s)) ps)
      then Inr () else Inl RecoveryFailure,
      s\<lparr>trace := trace s
          @ concat (map (engine_events env)
              (visited env (fat32_MBR_devices env (drivePath (config s)) ps)))\<rparr>)"
proof (induction ps arbitrary: s)
  case Nil
  show ?case by (simp add: fat32_MBR_devices_def visited_def)
next
  case (Cons p ps)
  show ?case
    by (simp add: recoverFAT32_over_MBR_step run_FAT32Recovery_events Cons.IH
          fat32_MBR_devices_Cons visited_Cons del: recoverFAT32_over_MBR.simps)
qed

lemma recoverFAT32_over_GPT_pass:
  "recoverFAT32_over_GPT env ps s =
     (if list_all (recovery_returns env) (fat32_GPT_devices env (drivePath (config s)) ps)
      then Inr () else Inl RecoveryFailure,
      s\<lparr>trace := trace s
          @ concat (map (engine_events env)
              (visited env (fat32_GPT_devices env (drivePath (config s)) ps)))\<rparr>)"
proof (induction ps arbitrary: s)
  case Nil
  show ?case by (simp add: fat32_GPT_devices_def visited_def)
next
  case (Cons p ps)
  show ?case
    by (simp add: recoverFAT32_over_GPT_step run_FAT32Recovery_events Cons.IH
          fat32_GPT_devices_Cons visited_Cons del: recoverFAT32_over_GPT.simps)
qed

text \<open>
  C7 (as amended). A pass over the MBR or the GPT partition list invokes recovery (a reader
  opened at the start of the partition, \<^verbatim>\<open>scanForDeletedFiles(0)\<close>, \<^verbatim>\<open>recoverAllFiles()\<close>)
  on the partitions whose type resolves to FAT32, in list order, and does nothing else; a
  partition of another type is passed over and never ends the pass. The pass stops at the
  first FAT32 partition on which the recovery engine throws: the exception leaves the
  pass, within that partition \<^verbatim>\<open>recoverAllFiles\<close> is reached only if the scan returned,
  and the partitions after it are not visited. If the engine throws on no FAT32
  partition, the pass returns normally and has recovered exactly the FAT32 partitions.
\<close>

theorem recoverFromPhysicalDriveFAT32_pass:
  assumes "scheme = MBR_SCHEME \<or> scheme = GPT_SCHEME"
  shows "recoverFromPhysicalDriveFAT32 env scheme s =
           (if list_all (recovery_returns env) (fat32_targets env scheme s)
            then Inr () else Inl RecoveryFailure,
            s\<lparr>trace := trace s
                @ concat (map (engine_events env) (visited env (fat32_targets env scheme s)))\<rparr>)
       \<and> (list_all (recovery_returns env) (fat32_targets env scheme s) \<longrightarrow>
            recoverFromPhysicalDriveFAT32 env scheme s =
              (Inr (),
               s\<lparr>trace := trace s @ concat (map recovery_events (fat32_targets env scheme s))\<rparr>))"
proof (cases "scheme = MBR_SCHEME")
  case True
  then show ?thesis
    by (simp add: recoverFromPhysicalDriveFAT32_def fat32_targets_def
          recoverFAT32_over_MBR_pass visited_all)
next
  case False
  with assms have "scheme = GPT_SCHEME" by simp
  then show ?thesis
    by (simp add: recoverFromPhysicalDriveFAT32_def fat32_targets_def
          recoverFAT32_over_GPT_pass visited_all)
qed

lemma three_partitions_targets:
  "fat32_targets (sample_env (sectors [])) MBR_SCHEME three_partitions
     = [PhysicalDrive [] 2048, PhysicalDrive [] 210944]"
  "fat32_targets failing_env MBR_SCHEME three_partitions
     = [PhysicalDrive [] 2048, PhysicalDrive [] 210944]"
  "trace three_partitions = []"
  by (simp_all add: fat32_targets_def fat32_MBR_devices_def sample_partition_def sample_env_def
        failing_env_def three_partitions_def raw_storage_def sample_config_def)

theorem recoverFromPhysicalDriveFAT32_pass_witness:
  "recoverFromPhysicalDriveFAT32 (sample_env (sectors [])) MBR_SCHEME three_partitions
     = (Inr (),
        three_partitions
          \<lparr>trace := [OpenDrive (PhysicalDrive [] 2048),
                     ScanForDeletedFiles (PhysicalDrive [] 2048) 0,
                     RecoverAllFiles (PhysicalDrive [] 2048),
                     OpenDrive (PhysicalDrive [] 210944),
                     ScanForDeletedFiles (PhysicalDrive [] 210944) 0,
                     RecoverAllFiles (PhysicalDrive [] 210944)]\<rparr>)"
proof -
  let ?env = "sample_env (sectors [])"
  have m: "MBR_SCHEME = MBR_SCHEME \<or> MBR_SCHEME = GPT_SCHEME" by simp
  have r: "recovery_returns ?env d" for d
    by (simp add: recovery_returns_def sample_env_def)
  have a: "list_all (recovery_returns ?env) (fat32_targets ?env MBR_SCHEME three_partitions)"
    by (simp add: three_partitions_targets(1) r)
  from recoverFromPhysicalDriveFAT32_pass [of MBR_SCHEME ?env three_partitions, OF m] a
  have "recoverFromPhysicalDriveFAT32 ?env MBR_SCHEME three_partitions =
          (Inr (),
           three_partitions
             \<lparr>trace := trace three_partitions
                @ concat (map recovery_events (fat32_targets ?env MBR_SCHEME three_partitions))\<rparr>)"
    by blast
  then show ?thesis
    by (simp add: three_partitions_targets recovery_events_def)
qed

text \<open>
  C7 as stated fails where the recovery engine throws. On the list of a FAT32, an NTFS
  and a second FAT32 partition, with an engine whose scan throws on the first, the pass
  ends with that exception after the scan: recovery is not invoked for the second FAT32
  partition, and the iteration does not continue over the remaining partitions.
\<close>

theorem recoverFromPhysicalDriveFAT32_aborts_counterexample:
  "fat32_targets failing_env MBR_SCHEME three_partitions
     = [PhysicalDrive [] 2048, PhysicalDrive [] 210944]
   \<and> recoverFromPhysicalDriveFAT32 failing_env MBR_SCHEME three_partitions
     = (Inl RecoveryFailure,
        three_partitions
          \<lparr>trace := [OpenDrive (PhysicalDrive [] 2048),
                     ScanForDeletedFiles (PhysicalDrive [] 2048) 0]\<rparr>)
   \<and> OpenDrive (PhysicalDrive [] 210944)
       \<notin> set (trace (snd (recoverFromPhysicalDriveFAT32 failing_env MBR_SCHEME three_partitions)))"
  by (simp add: recoverFromPhysicalDriveFAT32_def three_partitions_def raw_storage_def
        sample_config_def sample_partition_def failing_env_def sample_env_def
        getFSTypeFromMBRPartition_def recoverFromPhysicalDriveFAT32MBR_def
        run_FAT32Recovery_def log_event_def fat32_targets_def fat32_MBR_devices_def Let_def)

text \<open>
  C8. On a physical drive where the signature field of the \<^verbatim>\<open>gpt\<close> member, once
  sector 1 has been read into the member, does not hold \<^verbatim>\<open>EFI PART\<close> (where the reader
  delivers at least eight bytes: where sector 1 does not start with it) and whose
  sector 0 does not end in \<open>0x55\<close>, \<open>0xAA\<close>, \<^verbatim>\<open>recoverDrive\<close> returns normally. Both
  partition lists are as before, the reader is still open, and the two probing reads are
  the only operations logged: no partition is extracted and no recovery runs.
\<close>

theorem recoverDrive_unknown_scheme:
  assumes "driveType s = PHYSICAL_DRIVE"
    and "sectorReader s = Some reader"
    and "reader_readSector reader 0 sizeof_MBRHeader = Some sector0"
    and "reader_readSector reader 1 sizeof_GPTHeader = Some sector1"
    and "length sector0 = 512"
    and "take 8 (read_into 0 8 (Signature (gpt s)) sector1) \<noteq> ascii ''EFI PART''"
    and "\<not> (sector0 ! 510 = 0x55 \<and> sector0 ! 511 = 0xAA)"
  shows "\<exists>s'. recoverDrive env s = Some (Inr (), s')
           \<and> partitionsMBR s' = partitionsMBR s
           \<and> partitionsGPT s' = partitionsGPT s
           \<and> sectorReader s' = sectorReader s
           \<and> trace s' = trace s @ [ReadSector 0 sizeof_MBRHeader, ReadSector 1 sizeof_GPTHeader]"
proof -
  have m: "read_into_MBRHeader (mbr s) sector0 = decode_MBRHeader sector0"
    using assms(5) by (simp add: read_into_MBRHeader_full)
  have "getPartitionScheme s =
          (Inr UNKNOWN_SCHEME,
           s\<lparr>mbr := decode_MBRHeader sector0,
             gpt := read_into_GPTHeader (gpt s) sector1,
             trace := trace s @ [ReadSector 0 sizeof_MBRHeader, ReadSector 1 sizeof_GPTHeader]\<rparr>)"
    using getPartitionScheme_reads [OF assms(2-4)] mbr_signature_bytes [OF assms(5)] assms(6,7)
    by (simp add: m)
  then show ?thesis
    using assms(1) by (simp add: recoverDrive_def)
qed

theorem recoverDrive_unknown_scheme_witness:
  "\<exists>s'. recoverDrive (sample_env (sectors [blank_sector, blank_sector]))
            (handler_on (sectors [blank_sector, blank_sector])) = Some (Inr (), s')
        \<and> partitionsMBR s' = [] \<and> partitionsGPT s' = []
        \<and> trace s' = [ReadSector 0 512, ReadSector 1 512]"
proof -
  have b: "\<not> (blank_sector ! 510 = 0x55 \<and> blank_sector ! 511 = 0xAA)"
    by (simp add: blank_sector_def)
  have e: "take 8 blank_sector \<noteq> ascii ''EFI PART''"
  proof
    assume "take 8 blank_sector = ascii ''EFI PART''"
    then have "take 8 blank_sector ! 0 = ascii ''EFI PART'' ! 0" by simp
    then show False by (simp add: blank_sector_def ascii_def)
  qed
  have p: "driveType (handler_on (sectors [blank_sector, blank_sector])) = PHYSICAL_DRIVE"
    by (simp add: handler_on_def)
  have r0: "reader_readSector (image_reader (sectors [blank_sector, blank_sector]) 512) 0 sizeof_MBRHeader
            = Some blank_sector"
    using sample_lengths(2) by (simp add: sample_reads sizeof_MBRHeader_def)
  have r1: "reader_readSector (image_reader (sectors [blank_sector, blank_sector]) 512) 1 sizeof_GPTHeader
            = Some blank_sector"
    using sample_lengths(2) by (simp add: sample_reads sizeof_GPTHeader_def)
  have g: "take 8 (read_into 0 8 (Signature (gpt (handler_on (sectors [blank_sector, blank_sector]))))
                    blank_sector) \<noteq> ascii ''EFI PART''"
    using e by (simp add: read_into_signature sample_lengths(2))
  from recoverDrive_unknown_scheme [OF p sample_reads(1) r0 r1 sample_lengths(2) g b,
        of "sample_env (sectors [blank_sector, blank_sector])"]
  obtain s' where s': "recoverDrive (sample_env (sectors [blank_sector, blank_sector]))
            (handler_on (sectors [blank_sector, blank_sector])) = Some (Inr (), s')"
    "partitionsMBR s' = partitionsMBR (handler_on (sectors [blank_sector, blank_sector]))"
    "partitionsGPT s' = partitionsGPT (handler_on (sectors [blank_sector, blank_sector]))"
    "trace s' = trace (handler_on (sectors [blank_sector, blank_sector]))
                @ [ReadSector 0 sizeof_MBRHeader, ReadSector 1 sizeof_GPTHeader]"
    by blast
  have "partitionsMBR s' = [] \<and> partitionsGPT s' = []
        \<and> trace s' = [ReadSector 0 512, ReadSector 1 512]"
    using s'(2-4)
    by (simp add: handler_on_def raw_storage_def sizeof_MBRHeader_def sizeof_GPTHeader_def)
  with s'(1) show ?thesis by blast
qed

subsection \<open>GPT partition entries\<close>

lemma readSector_preserves:
  "readSector sector sz s = (r, s1) \<Longrightarrow>
     gpt s1 = gpt s \<and> bytesPerSector s1 = bytesPerSector s \<and> sectorReader s1 = sectorReader s
   \<and> partitionsGPT s1 = partitionsGPT s \<and> partitionsMBR s1 = partitionsMBR s
   \<and> config s1 = config s"
  by (auto simp: readSector_def log_event_def split: option.splits)

lemma getGPTPartitions_entries_preserves:
  "getGPTPartitions_entries env buf sz eps i j s = (r, s2) \<Longrightarrow>
     gpt s2 = gpt s \<and> bytesPerSector s2 = bytesPerSector s \<and> sectorReader s2 = sectorReader s
   \<and> trace s2 = trace s \<and> partitionsMBR s2 = partitionsMBR s \<and> config s2 = config s"
proof (induction env buf sz eps i j s rule: getGPTPartitions_entries.induct)
  case (1 env buf sz eps i j s)
  show ?case
  proof (cases "j < eps \<and> i + j < NumberOfEntries (gpt s)")
    case False
    with "1.prems" show ?thesis by simp
  next
    case True
    show ?thesis
    proof (cases "memcpy_entry env buf j sz")
      case (Inl e)
      with True "1.prems" show ?thesis by simp
    next
      case (Inr partitionEntry)
      with True "1.prems" "1.IH" [OF True Inr] show ?thesis
        by (auto split: if_splits)
    qed
  qed
qed

lemma getGPTPartitions_entries_no_overrun:
  "unat sz \<le> sizeof_GPTPartitionEntry \<Longrightarrow>
   fst (getGPTPartitions_entries env buf sz eps i j s) = Inr ()"
proof (induction env buf sz eps i j s rule: getGPTPartitions_entries.induct)
  case (1 env buf sz eps i j s)
  show ?case
  proof (cases "j < eps \<and> i + j < NumberOfEntries (gpt s)")
    case False
    then show ?thesis by auto
  next
    case True
    from "1.prems" obtain partitionEntry where m: "memcpy_entry env buf j sz = Inr partitionEntry"
      by (auto simp: memcpy_entry_def)
    from "1.IH" [OF True m "1.prems"] True m show ?thesis
      by simp
  qed
qed

text \<open>
  C4 fails on the code where the header's \<^verbatim>\<open>SizeOfEntry\<close> is larger than the
  128-byte \<^verbatim>\<open>GPTPartitionEntry\<close>: the \<^verbatim>\<open>memcpy\<close> of \<^verbatim>\<open>sizeOfEntry\<close> bytes
  writes past the local structure. With two entries of 256 bytes, the first of them with
  a type GUID that is not zero, extraction has no defined result and no entry is returned.
\<close>

theorem getGPTPartitions_entry_size_256:
  "\<exists>s'. getGPTPartitions env large_entries_gpt = Some (Inl BufferOverrun, s')
        \<and> partitionsGPT s' = []"
proof -
  have l: "length large_entries_sector = 512"
    by (simp add: large_entries_sector_def)
  have rd: "readSector 2 512 large_entries_gpt
            = (Inr large_entries_sector, log_event (ReadSector 2 512) large_entries_gpt)"
    using l by (simp add: readSector_def large_entries_gpt_def handler_on_def image_reader_def
          sectors_def)
  have m: "memcpy_entry env large_entries_sector 0 256 = Inl BufferOverrun"
    by (simp add: memcpy_entry_def sizeof_GPTPartitionEntry_def)
  have g: "NumberOfEntries (gpt large_entries_gpt) = 2" "SizeOfEntry (gpt large_entries_gpt) = 256"
    "PartitionEntryLBA (gpt large_entries_gpt) = 2" "bytesPerSector large_entries_gpt = 512"
    "partitionsGPT large_entries_gpt = []"
    by (simp_all add: large_entries_gpt_def gpt_header_def handler_on_def raw_storage_def)
  have g': "NumberOfEntries (gpt (log_event (ReadSector 2 512) large_entries_gpt)) = 2"
    "partitionsGPT (log_event (ReadSector 2 512) large_entries_gpt) = []"
    by (simp_all add: log_event_def g)
  have e: "getGPTPartitions_entries env large_entries_sector 256 2 0 0
             (log_event (ReadSector 2 512) large_entries_gpt)
           = (Inl BufferOverrun, log_event (ReadSector 2 512) large_entries_gpt)"
    by (simp add: m g')
  have "getGPTPartitions env large_entries_gpt
        = Some (Inl BufferOverrun, log_event (ReadSector 2 512) large_entries_gpt)"
    unfolding getGPTPartitions_def Let_def g
    by (subst getGPTPartitions_sectors.simps) (simp add: g rd e del: getGPTPartitions_entries.simps)
  with g'(2) show ?thesis by blast
qed

text \<open>
  Where the header gives the entries the 128 bytes of the structure, a sector holds a
  whole number \<open>e\<close> of them, there are at most \<open>2^25\<close> entries (so that
  \<^verbatim>\<open>i * sizeOfEntry\<close> does not wrap) and the sectors of the array can be read,
  extraction ends normally. It appends the decoded entries whose type GUID is not zero,
  in array order, and it reads each sector of the array once, \<open>e\<close> entries at a time.
\<close>

lemma unat_of_nat32: "n < 2 ^ 32 \<Longrightarrow> unat (of_nat n :: uint32) = n"
  by (simp add: unat_of_nat)

lemma of_nat_unat32: "unat (w :: uint32) = n \<Longrightarrow> w = of_nat n"
  by auto

lemma ucast_of_nat32: "unat (w :: uint32) = n \<Longrightarrow> (ucast w :: uint64) = of_nat n"
  by auto

lemma less32: "a < 2 ^ 32 \<Longrightarrow> b < 2 ^ 32 \<Longrightarrow> ((of_nat a :: uint32) < of_nat b) = (a < b)"
  by (simp add: word_less_nat_alt unat_of_nat32)

lemma mult32: "a * 128 < 2 ^ 32 \<Longrightarrow> unat ((of_nat a :: uint32) * 128) = a * 128"
proof -
  assume h: "a * 128 < 2 ^ 32"
  then have "a < 2 ^ 32" by simp
  then have "unat (of_nat a :: uint32) = a" by (rule unat_of_nat32)
  then have "unat ((of_nat a :: uint32) * 128) = (a * 128) mod 2 ^ 32"
    by (simp add: unat_word_ariths)
  with h show ?thesis by simp
qed

lemma nonempty_entries_Cons:
  "nonempty_entries env (raw # raws) =
     (if \<not> isEmptyGUID (decode_GPTPartitionEntry (raw @ drop 128 (uninitialised_entry env)))
      then decode_GPTPartitionEntry (raw @ drop 128 (uninitialised_entry env)) # nonempty_entries env raws
      else nonempty_entries env raws)"
  by (simp add: nonempty_entries_def)

lemma nonempty_entries_append:
  "nonempty_entries env (xs @ ys) = nonempty_entries env xs @ nonempty_entries env ys"
  by (simp add: nonempty_entries_def)

lemma entries_of_sector:
  fixes e a Nn m :: nat
  assumes eps: "eps = of_nat e" and i: "i = of_nat a" and ae: "a + e < 2 ^ 32"
    and e128: "e * 128 < 2 ^ 32" and N: "NumberOfEntries g = of_nat Nn" and Nn: "Nn < 2 ^ 32"
    and m: "m = min e (Nn - a)"
  shows "j \<le> m \<Longrightarrow> gpt s = g \<Longrightarrow>
         getGPTPartitions_entries env buf 128 eps i (of_nat j) s
         = (Inr (), s\<lparr>partitionsGPT := partitionsGPT s
                       @ nonempty_entries env (map (\<lambda>j. slice (j * 128) 128 buf) [j ..< m])\<rparr>)"
proof (induction "m - j" arbitrary: j s)
  case 0
  then have jm: "j = m" by simp
  have je: "j < 2 ^ 32" "e < 2 ^ 32" "a + j < 2 ^ 32" using ae jm m by simp_all
  have c1: "((of_nat j :: uint32) < eps) = (j < e)"
    unfolding eps by (rule less32 [OF je(1,2)])
  have "i + of_nat j = (of_nat (a + j) :: uint32)" by (simp add: i)
  then have "(i + of_nat j < NumberOfEntries (gpt s)) = ((of_nat (a + j) :: uint32) < of_nat Nn)"
    by (simp only: "0.prems"(2) N)
  also have "\<dots> = (a + j < Nn)" by (rule less32 [OF je(3) Nn])
  finally have c2: "(i + of_nat j < NumberOfEntries (gpt s)) = (a + j < Nn)" .
  have "\<not> (j < e \<and> a + j < Nn)" using jm m by auto
  then have c: "\<not> ((of_nat j :: uint32) < eps \<and> i + of_nat j < NumberOfEntries (gpt s))"
    by (simp add: c1 c2)
  show ?case
    by (subst getGPTPartitions_entries.simps) (simp only: c if_False, simp add: jm nonempty_entries_def)
next
  case (Suc d)
  then have jm: "j < m" by simp
  with m have lt: "j < e" "a + j < Nn" by auto
  have je: "j < 2 ^ 32" "e < 2 ^ 32" "a + j < 2 ^ 32" using ae lt by simp_all
  have c1: "((of_nat j :: uint32) < eps) = (j < e)"
    unfolding eps by (rule less32 [OF je(1,2)])
  have "i + of_nat j = (of_nat (a + j) :: uint32)" by (simp add: i)
  then have "(i + of_nat j < NumberOfEntries (gpt s)) = ((of_nat (a + j) :: uint32) < of_nat Nn)"
    by (simp only: Suc.prems(2) N)
  also have "\<dots> = (a + j < Nn)" by (rule less32 [OF je(3) Nn])
  finally have c2: "(i + of_nat j < NumberOfEntries (gpt s)) = (a + j < Nn)" .
  have c: "(of_nat j :: uint32) < eps \<and> i + of_nat j < NumberOfEntries (gpt s)"
    using lt by (simp add: c1 c2)
  have "j * 128 < 2 ^ 32" using lt(1) e128 by simp
  then have j128: "unat ((of_nat j :: uint32) * 128) = j * 128"
    by (rule mult32)
  let ?p = "decode_GPTPartitionEntry (slice (j * 128) 128 buf @ drop 128 (uninitialised_entry env))"
  have mc: "memcpy_entry env buf (of_nat j) 128 = Inr ?p"
    by (simp add: memcpy_entry_def sizeof_GPTPartitionEntry_def j128)
  let ?s = "if \<not> isEmptyGUID ?p then s\<lparr>partitionsGPT := partitionsGPT s @ [?p]\<rparr> else s"
  have d: "d = m - Suc j" using Suc.hyps(2) by simp
  have g: "gpt ?s = g" using Suc.prems(2) by simp
  have sj: "Suc j \<le> m" using jm by simp
  note ih = Suc.hyps(1) [OF d sj g]
  have u: "[j ..< m] = j # [Suc j ..< m]" using jm by (simp add: upt_conv_Cons)
  have s1: "(of_nat j :: uint32) + 1 = of_nat (Suc j)" by simp
  show ?case
    apply (subst getGPTPartitions_entries.simps)
    apply (simp only: c if_True mc sum.case s1 ih u list.map nonempty_entries_Cons)
    apply simp
    done
qed

lemma entry_sectors_less: "0 < e \<Longrightarrow> (k < entry_sectors n e) = (k * e < n)"
proof -
  assume e: "0 < e"
  have "(k < entry_sectors n e) = (Suc k \<le> (n + e - 1) div e)"
    by (simp add: entry_sectors_def less_eq_Suc_le)
  also have "\<dots> = (Suc k * e \<le> n + e - 1)"
    using e by (simp only: less_eq_div_iff_mult_less_eq)
  also have "\<dots> = (k * e < n)" using e by auto
  finally show ?thesis .
qed

lemma entries_in_sector:
  assumes "0 < e" "m \<le> e"
  shows "map (entry_at disk e) [k * e ..< k * e + m] = map (\<lambda>j. slice (j * 128) 128 (disk k)) [0 ..< m]"
proof -
  have "map (entry_at disk e) [k * e ..< k * e + m]
        = map (\<lambda>j. entry_at disk e (k * e + j)) [0 ..< m]"
    by (simp add: map_add_upt [symmetric] add.commute)
  also have "\<dots> = map (\<lambda>j. slice (j * 128) 128 (disk k)) [0 ..< m]"
    using assms by (intro map_cong) (simp_all add: entry_at_def)
  finally show ?thesis .
qed

lemma sectors_of_array:
  fixes e Nn :: nat
  assumes e0: "0 < e" and e128: "e * 128 < 2 ^ 32"
    and N: "NumberOfEntries g = of_nat Nn" and Nn: "Nn \<le> 2 ^ 25"
    and rd: "\<forall>k. k * e < Nn \<longrightarrow>
               reader_readSector reader (PartitionEntryLBA g + of_nat k) (of_nat (e * 128)) = Some (disk k)"
  shows "k \<le> entry_sectors Nn e \<Longrightarrow> gpt s = g \<Longrightarrow> bytesPerSector s = of_nat (e * 128) \<Longrightarrow>
         sectorReader s = Some reader \<Longrightarrow>
         getGPTPartitions_sectors env 128 (of_nat e) (of_nat (k * e)) s
         = Some (Inr (),
             s\<lparr>partitionsGPT := partitionsGPT s
                  @ nonempty_entries env (map (entry_at disk e) [k * e ..< Nn]),
               trace := trace s
                  @ map (\<lambda>k. ReadSector (PartitionEntryLBA g + of_nat k) (of_nat (e * 128)))
                      [k ..< entry_sectors Nn e]\<rparr>)"
proof (induction "entry_sectors Nn e - k" arbitrary: k s)
  case 0
  then have k: "k = entry_sectors Nn e" by simp
  then have "\<not> k < entry_sectors Nn e" by simp
  then have ge: "\<not> k * e < Nn" using entry_sectors_less [OF e0, of k Nn] by simp
  have "k * e < Nn + e"
  proof (cases "entry_sectors Nn e")
    case 0
    with k e0 show ?thesis by simp
  next
    case (Suc n)
    then have "n < entry_sectors Nn e" by simp
    then have "n * e < Nn" using entry_sectors_less [OF e0, of n Nn] by simp
    with k Suc show ?thesis by simp
  qed
  with Nn e128 have b: "k * e < 2 ^ 32" by simp
  have Nn32: "Nn < 2 ^ 32" using Nn by simp
  have "((of_nat (k * e) :: uint32) < of_nat Nn) = (k * e < Nn)"
    by (rule less32 [OF b Nn32])
  with ge have c: "\<not> (of_nat (k * e) :: uint32) < NumberOfEntries (gpt s)"
    by (simp add: "0.prems"(2) N del: of_nat_mult)
  have l: "[k * e ..< Nn] = []" "[k ..< entry_sectors Nn e] = []" using ge k by simp_all
  show ?case
    by (subst getGPTPartitions_sectors.simps) (simp only: c if_False l, simp add: nonempty_entries_def)
next
  case (Suc d)
  then have klt: "k < entry_sectors Nn e" by simp
  then have lt: "k * e < Nn" using entry_sectors_less [OF e0, of k Nn] by simp
  have Nn32: "Nn < 2 ^ 32" using Nn by simp
  have b: "k * e < 2 ^ 32" using lt Nn32 by simp
  have "((of_nat (k * e) :: uint32) < of_nat Nn) = (k * e < Nn)"
    by (rule less32 [OF b Nn32])
  with lt have c: "(of_nat (k * e) :: uint32) < NumberOfEntries (gpt s)"
    by (simp add: Suc.prems(2) N del: of_nat_mult)
  have bz: "bytesPerSector s \<noteq> 0"
  proof
    assume "bytesPerSector s = 0"
    then have "unat (of_nat (e * 128) :: uint32) = 0" by (simp add: Suc.prems(3))
    with e128 e0 show False by (simp add: unat_of_nat32 del: of_nat_mult)
  qed
  have "k * e < 33554432" using lt Nn by simp
  then have "(k * e) * 128 < (4294967296 :: nat)" by linarith
  then have "k * e * 128 < 2 ^ 32" by simp
  then have "unat ((of_nat (k * e) :: uint32) * 128) = k * e * 128" by (rule mult32)
  moreover have "unat (of_nat (e * 128) :: uint32) = e * 128" using e128 by (rule unat_of_nat32)
  ultimately have "unat (((of_nat (k * e) :: uint32) * 128) div of_nat (e * 128)) = k"
    using e0 by (simp add: unat_div del: of_nat_mult)
  then have lba: "(ucast (((of_nat (k * e) :: uint32) * 128) div of_nat (e * 128)) :: uint64) = of_nat k"
    by (rule ucast_of_nat32)
  let ?ev = "ReadSector (PartitionEntryLBA g + of_nat k) (of_nat (e * 128))"
  let ?s1 = "log_event ?ev s"
  have r: "readSector (PartitionEntryLBA (gpt s) + ucast (((of_nat (k * e) :: uint32) * 128) div bytesPerSector s))
             (bytesPerSector s) s = (Inr (disk k), ?s1)"
    using rd lt Suc.prems(2,3,4) by (simp add: readSector_def lba del: of_nat_mult)
  let ?m = "min e (Nn - k * e)"
  have ae: "k * e + e < 2 ^ 32" using lt Nn e128 by simp
  have g1: "gpt ?s1 = g" using Suc.prems(2) by (simp add: log_event_def)
  have inner: "getGPTPartitions_entries env (disk k) 128 (of_nat e) (of_nat (k * e)) (of_nat 0) ?s1
        = (Inr (), ?s1\<lparr>partitionsGPT := partitionsGPT ?s1
              @ nonempty_entries env (map (\<lambda>j. slice (j * 128) 128 (disk k)) [0 ..< ?m])\<rparr>)"
    by (rule entries_of_sector [OF refl refl ae e128 N Nn32 refl _ g1]) simp
  have inner0: "getGPTPartitions_entries env (disk k) 128 (of_nat e) (of_nat (k * e)) 0 ?s1
        = (Inr (), ?s1\<lparr>partitionsGPT := partitionsGPT ?s1
              @ nonempty_entries env (map (\<lambda>j. slice (j * 128) 128 (disk k)) [0 ..< ?m])\<rparr>)"
    using inner by (simp only: semiring_1_class.of_nat_0)
  let ?s2 = "?s1\<lparr>partitionsGPT := partitionsGPT ?s1
              @ nonempty_entries env (map (\<lambda>j. slice (j * 128) 128 (disk k)) [0 ..< ?m])\<rparr>"
  have nx: "(of_nat (k * e) :: uint32) + of_nat e = of_nat (Suc k * e)" by (simp add: add.commute)
  have d: "d = entry_sectors Nn e - Suc k" using Suc.hyps(2) by simp
  have sk: "Suc k \<le> entry_sectors Nn e" using klt by simp
  have p2: "gpt ?s2 = g" "bytesPerSector ?s2 = of_nat (e * 128)" "sectorReader ?s2 = Some reader"
    using Suc.prems(2,3,4) by (simp_all add: log_event_def)
  note ih = Suc.hyps(1) [OF d sk p2]
  have split: "map (entry_at disk e) [k * e ..< Nn]
        = map (\<lambda>j. slice (j * 128) 128 (disk k)) [0 ..< ?m] @ map (entry_at disk e) [Suc k * e ..< Nn]"
  proof -
    have le: "k * e + ?m \<le> Nn" using lt by simp
    have "[k * e ..< Nn] = [k * e ..< k * e + ?m] @ [k * e + ?m ..< Nn]"
      using le by (metis le_add1 upt_add_eq_append le_Suc_ex)
    moreover have "[k * e + ?m ..< Nn] = [Suc k * e ..< Nn]"
    proof (cases "e \<le> Nn - k * e")
      case True
      then show ?thesis by (simp add: min_def add.commute)
    next
      case False
      then have "k * e + ?m = Nn" "Nn \<le> Suc k * e" using lt by (simp_all add: min_def)
      then show ?thesis by simp
    qed
    ultimately show ?thesis
      using entries_in_sector [OF e0, of ?m disk k] by simp
  qed
  have u: "[k ..< entry_sectors Nn e] = k # [Suc k ..< entry_sectors Nn e]"
    using klt by (simp add: upt_conv_Cons)
  show ?case
    apply (subst getGPTPartitions_sectors.simps)
    apply (simp only: c if_True bz if_False r prod.case sum.case inner0 nx ih split u)
    apply (simp add: log_event_def nonempty_entries_append)
    done
qed


lemma bytesPerSector_div_128:
  assumes "e * 128 < 2 ^ 32"
  shows "(of_nat (e * 128) :: uint32) div 128 = of_nat e"
proof -
  have "unat ((of_nat (e * 128) :: uint32) div 128) = e"
    using assms by (simp add: unat_div unat_of_nat32 del: of_nat_mult)
  then show ?thesis by (rule of_nat_unat32)
qed

lemma decode_GPTPartitionEntry_append:
  assumes "length raw = 128"
  shows "decode_GPTPartitionEntry (raw @ junk) = decode_GPTPartitionEntry raw"
proof -
  have "map (\<lambda>i. (le_word (slice (56 + 2 * i) 2 (raw @ junk)) :: uint16)) [0..<36]
        = map (\<lambda>i. le_word (slice (56 + 2 * i) 2 raw)) [0..<36]"
    using assms by (intro map_cong) (simp_all add: slice_def)
  then show ?thesis
    using assms by (simp add: decode_GPTPartitionEntry_def slice_def)
qed

lemma length_entry_at:
  assumes "0 < e" "length (disk (n div e)) = e * 128"
  shows "length (entry_at disk e n) = 128"
proof -
  have "n mod e < e" using assms(1) by simp
  then have "Suc (n mod e) \<le> e" by simp
  then have "Suc (n mod e) * 128 \<le> e * 128" by (rule mult_le_mono1)
  then show ?thesis
    using assms(2) by (simp add: entry_at_def slice_def)
qed

theorem getGPTPartitions_128_byte_entries:
  fixes e Nn :: nat
  assumes sz: "SizeOfEntry (gpt s) = 128"
    and bps: "bytesPerSector s = of_nat (e * 128)" and e0: "0 < e" and e128: "e * 128 < 2 ^ 32"
    and N: "NumberOfEntries (gpt s) = of_nat Nn" and Nn: "Nn \<le> 2 ^ 25"
    and reader: "sectorReader s = Some reader"
    and rd: "\<forall>k. k * e < Nn \<longrightarrow>
               reader_readSector reader (PartitionEntryLBA (gpt s) + of_nat k) (bytesPerSector s)
               = Some (disk k) \<and> length (disk k) = e * 128"
  shows "getGPTPartitions env s
         = Some (Inr (),
             s\<lparr>partitionsGPT := partitionsGPT s
                  @ filter (\<lambda>p. \<not> isEmptyGUID p)
                      (map (\<lambda>n. decode_GPTPartitionEntry (entry_at disk e n)) [0 ..< Nn]),
               trace := trace s
                  @ map (\<lambda>k. ReadSector (PartitionEntryLBA (gpt s) + of_nat k) (bytesPerSector s))
                      [0 ..< entry_sectors Nn e]\<rparr>)"
proof -
  have rd': "\<forall>k. k * e < Nn \<longrightarrow>
               reader_readSector reader (PartitionEntryLBA (gpt s) + of_nat k) (of_nat (e * 128)) = Some (disk k)"
    using rd by (simp only: bps) simp
  have "getGPTPartitions_sectors env 128 (of_nat e) (of_nat (0 * e)) s
         = Some (Inr (),
             s\<lparr>partitionsGPT := partitionsGPT s
                  @ nonempty_entries env (map (entry_at disk e) [0 * e ..< Nn]),
               trace := trace s
                  @ map (\<lambda>k. ReadSector (PartitionEntryLBA (gpt s) + of_nat k) (of_nat (e * 128)))
                      [0 ..< entry_sectors Nn e]\<rparr>)"
    by (rule sectors_of_array [OF e0 e128 N Nn rd' _ refl bps reader]) simp
  then have run: "getGPTPartitions env s
         = Some (Inr (),
             s\<lparr>partitionsGPT := partitionsGPT s
                  @ nonempty_entries env (map (entry_at disk e) [0 ..< Nn]),
               trace := trace s
                  @ map (\<lambda>k. ReadSector (PartitionEntryLBA (gpt s) + of_nat k) (of_nat (e * 128)))
                      [0 ..< entry_sectors Nn e]\<rparr>)"
    by (simp add: getGPTPartitions_def sz Let_def bps bytesPerSector_div_128 [OF e128]
          del: of_nat_mult)
  have "map (\<lambda>raw. decode_GPTPartitionEntry (raw @ drop 128 (uninitialised_entry env)))
          (map (entry_at disk e) [0 ..< Nn])
        = map (\<lambda>n. decode_GPTPartitionEntry (entry_at disk e n)) [0 ..< Nn]"
  proof -
    have "decode_GPTPartitionEntry (entry_at disk e n @ drop 128 (uninitialised_entry env))
          = decode_GPTPartitionEntry (entry_at disk e n)" if "n < Nn" for n
    proof -
      have "n div e * e \<le> n" by simp
      then have "n div e * e < Nn" using that by (rule le_less_trans)
      with rd have "length (disk (n div e)) = e * 128" by blast
      from length_entry_at [of e disk n, OF e0 this] show ?thesis
        by (rule decode_GPTPartitionEntry_append)
    qed
    then show ?thesis by simp
  qed
  then have "nonempty_entries env (map (entry_at disk e) [0 ..< Nn])
             = filter (\<lambda>p. \<not> isEmptyGUID p)
                 (map (\<lambda>n. decode_GPTPartitionEntry (entry_at disk e n)) [0 ..< Nn])"
    by (simp only: nonempty_entries_def)
  with run show ?thesis by (simp only: bps)
qed

lemma endless_inv_step:
  assumes "endless_inv sz eps i s"
  shows "i < NumberOfEntries (gpt s)" and "unat (i + eps) mod 4 = 0"
proof -
  from assms have m: "unat i mod 4 = 0" and n: "NumberOfEntries (gpt s) = 0xFFFFFFFF"
    and e: "eps = 4"
    by (simp_all add: endless_inv_def)
  have "unat i \<noteq> 4294967295"
  proof
    assume "unat i = 4294967295"
    with m show False by simp
  qed
  moreover have "unat i < 4294967296" using unsigned_less [of i, where 'a=nat] by simp
  ultimately have "unat i < unat (0xFFFFFFFF :: uint32)" by simp
  then show "i < NumberOfEntries (gpt s)" by (simp only: n word_less_nat_alt)
  have u: "unat (i + 4) = (unat i + 4) mod 4294967296" by (simp add: unat_word_ariths)
  have d: "(4::nat) dvd 4294967296" by simp
  have "unat (i + 4) mod 4 = (unat i + 4) mod 4"
    by (simp only: u mod_mod_cancel [OF d])
  also have "\<dots> = 0" using m by simp
  finally show "unat (i + eps) mod 4 = 0" by (simp only: e)
qed

lemma getGPTPartitions_sectors_endless:
  "getGPTPartitions_sectors env sz eps i s = Some y \<Longrightarrow> \<not> endless_inv sz eps i s"
proof (induction rule: getGPTPartitions_sectors.raw_induct [rotated 1, consumes 1, case_names step])
  case (step loop env sz eps i s y)
  show ?case
  proof
    assume inv: "endless_inv sz eps i s"
    note lt = endless_inv_step(1) [OF inv] and nxt = endless_inv_step(2) [OF inv]
    from inv have f: "sz = 128" "eps = 4" "bytesPerSector s = 512"
      "sectorReader s = Some every_sector_blank" "NumberOfEntries (gpt s) = 0xFFFFFFFF"
      by (simp_all add: endless_inv_def)
    obtain buf s1 where rd: "readSector (PartitionEntryLBA (gpt s) + ucast ((i * sz) div bytesPerSector s))
                     (bytesPerSector s) s = (Inr buf, s1)"
      using f(4) by (simp add: readSector_def every_sector_blank_def)
    note p1 = readSector_preserves [OF rd]
    obtain r2 s2 where en: "getGPTPartitions_entries env buf sz eps i 0 s1 = (r2, s2)" by force
    have "unat sz \<le> sizeof_GPTPartitionEntry" by (simp add: f(1) sizeof_GPTPartitionEntry_def)
    from getGPTPartitions_entries_no_overrun [OF this, of env buf eps i 0 s1] en
    have r2: "r2 = Inr ()" by simp
    note p2 = getGPTPartitions_entries_preserves [OF en]
    have inv2: "endless_inv sz eps (i + eps) s2"
      using nxt f p1 p2 by (simp add: endless_inv_def)
    from step.hyps lt f(3) rd en r2 have "loop env sz eps (i + eps) s2 = Some y"
      by simp
    from step.IH [OF this] inv2 show False by simp
  qed
qed

text \<open>
  C10 fails on the code: with \<^verbatim>\<open>NumberOfEntries = 0xFFFFFFFF\<close>, entries of 128 bytes
  and sectors of 512 bytes (so \<^verbatim>\<open>SizeOfEntry\<close> is not zero and at most
  \<^verbatim>\<open>bytesPerSector\<close>), the index \<^verbatim>\<open>i\<close> runs through the multiples of 4, is never
  \<open>0xFFFFFFFF\<close>, and wraps around to 0 after \<open>0xFFFFFFFC\<close>. On a device whose
  reads all succeed the loop never ends.
\<close>

theorem getGPTPartitions_counter_wraps:
  "getGPTPartitions env endless_gpt = None"
proof (cases "getGPTPartitions env endless_gpt")
  case None
  then show ?thesis .
next
  case (Some y)
  then have "getGPTPartitions_sectors env 128 4 0 endless_gpt = Some y"
    by (simp add: getGPTPartitions_def endless_gpt_def gpt_header_def Let_def)
  from getGPTPartitions_sectors_endless [OF this]
  show ?thesis
    by (simp add: endless_inv_def endless_gpt_def gpt_header_def)
qed

text \<open>
  Where the index does not wrap (\<^verbatim>\<open>NumberOfEntries + entriesPerSector\<close> is at most
  \<open>2^32\<close>) and \<^verbatim>\<open>SizeOfEntry\<close> is not zero and at most \<^verbatim>\<open>bytesPerSector\<close>,
  the loop does end: after the ceiling of \<^verbatim>\<open>NumberOfEntries / entriesPerSector\<close>
  sector reads when nothing is thrown, after fewer when a read or a copy fails.
\<close>

lemma readSector_trace:
  "readSector sector sz s = (r, s1) \<Longrightarrow>
     length (trace s1) \<le> Suc (length (trace s))
   \<and> (\<forall>bs. r = Inr bs \<longrightarrow> trace s1 = trace s @ [ReadSector sector sz])"
  by (auto simp: readSector_def log_event_def split: option.splits)

lemma sectors_terminate:
  fixes e Nn :: nat
  assumes e0: "0 < e" and eps: "unat eps = e" and wrap: "Nn + e \<le> 2 ^ 32"
  shows "unat i = k * e \<Longrightarrow> k \<le> entry_sectors Nn e \<Longrightarrow> unat (NumberOfEntries (gpt s)) = Nn \<Longrightarrow>
         \<exists>r s'. getGPTPartitions_sectors env sz eps i s = Some (r, s')
           \<and> length (trace s') \<le> length (trace s) + (entry_sectors Nn e - k)
           \<and> (r = Inr () \<longrightarrow> length (trace s') = length (trace s) + (entry_sectors Nn e - k))"
proof (induction "entry_sectors Nn e - k" arbitrary: i k s)
  case 0
  then have "\<not> k < entry_sectors Nn e" by simp
  then have "\<not> k * e < Nn" using entry_sectors_less [OF e0, of k Nn] by simp
  then have c: "\<not> i < NumberOfEntries (gpt s)"
    by (simp add: word_less_nat_alt "0.prems"(1,3))
  show ?case
    using "0.hyps" by (subst getGPTPartitions_sectors.simps) (simp only: c if_False, simp)
next
  case (Suc d)
  then have klt: "k < entry_sectors Nn e" by simp
  then have lt: "k * e < Nn" using entry_sectors_less [OF e0, of k Nn] by simp
  then have c: "i < NumberOfEntries (gpt s)"
    by (simp add: word_less_nat_alt Suc.prems(1,3))
  have pos: "0 < entry_sectors Nn e - k" using klt by simp
  show ?case
  proof (cases "bytesPerSector s = 0")
    case True
    show ?thesis
      using pos by (subst getGPTPartitions_sectors.simps) (simp only: c if_True True, simp)
  next
    case False
    obtain r1 s1 where rd: "readSector (PartitionEntryLBA (gpt s) + ucast ((i * sz) div bytesPerSector s))
                              (bytesPerSector s) s = (r1, s1)"
      by force
    note t1 = readSector_trace [OF rd] and p1 = readSector_preserves [OF rd]
    show ?thesis
    proof (cases r1)
      case (Inl err)
      have "getGPTPartitions_sectors env sz eps i s = Some (Inl err, s1)"
        by (subst getGPTPartitions_sectors.simps) (simp only: c if_True False if_False rd Inl prod.case sum.case)
      with t1 pos show ?thesis by auto
    next
      case (Inr buf)
      obtain r2 s2 where en: "getGPTPartitions_entries env buf sz eps i 0 s1 = (r2, s2)" by force
      note p2 = getGPTPartitions_entries_preserves [OF en]
      from t1 Inr have tr: "trace s1 = trace s @ [ReadSector (PartitionEntryLBA (gpt s) + ucast ((i * sz) div bytesPerSector s)) (bytesPerSector s)]"
        by simp
      show ?thesis
      proof (cases r2)
        case (Inl err)
        have "getGPTPartitions_sectors env sz eps i s = Some (Inl err, s2)"
          by (subst getGPTPartitions_sectors.simps)
             (simp only: c if_True False if_False rd \<open>r1 = Inr buf\<close> prod.case sum.case en Inl)
        with p2 tr pos show ?thesis by auto
      next
        case (Inr u)
        have step: "getGPTPartitions_sectors env sz eps i s
                    = getGPTPartitions_sectors env sz eps (i + eps) s2"
          by (subst getGPTPartitions_sectors.simps)
             (simp only: c if_True False if_False rd \<open>r1 = Inr buf\<close> prod.case sum.case en Inr)
        have "unat i + unat eps < 2 ^ 32" using lt wrap by (simp add: Suc.prems(1) eps)
        then have nx: "unat (i + eps) = Suc k * e"
          by (simp add: unat_word_ariths Suc.prems(1) eps)
        have d: "d = entry_sectors Nn e - Suc k" using Suc.hyps(2) by simp
        have sk: "Suc k \<le> entry_sectors Nn e" using klt by simp
        have n2: "unat (NumberOfEntries (gpt s2)) = Nn" using p1 p2 Suc.prems(3) by simp
        from Suc.hyps(1) [OF d nx sk n2] obtain r s' where
          res: "getGPTPartitions_sectors env sz eps (i + eps) s2 = Some (r, s')"
            "length (trace s') \<le> length (trace s2) + (entry_sectors Nn e - Suc k)"
            "r = Inr () \<longrightarrow> length (trace s') = length (trace s2) + (entry_sectors Nn e - Suc k)"
          by blast
        have l2: "length (trace s2) = Suc (length (trace s))" using p2 tr by simp
        have a0: "getGPTPartitions_sectors env sz eps i s = Some (r, s')"
          using res(1) by (simp only: step)
        have a1: "length (trace s') \<le> length (trace s) + (entry_sectors Nn e - k)"
          using res(2) l2 klt by linarith
        have a2: "r = Inr () \<longrightarrow> length (trace s') = length (trace s) + (entry_sectors Nn e - k)"
        proof
          assume "r = Inr ()"
          with res(3) have "length (trace s') = length (trace s2) + (entry_sectors Nn e - Suc k)"
            by simp
          with l2 klt show "length (trace s') = length (trace s) + (entry_sectors Nn e - k)"
            by linarith
        qed
        from a0 a1 a2 have "getGPTPartitions_sectors env sz eps i s = Some (r, s')
              \<and> length (trace s') \<le> length (trace s) + (entry_sectors Nn e - k)
              \<and> (r = Inr () \<longrightarrow> length (trace s') = length (trace s) + (entry_sectors Nn e - k))"
          by simp
        then show ?thesis by blast
      qed
    qed
  qed
qed

theorem getGPTPartitions_terminates_without_wraparound:
  assumes "SizeOfEntry (gpt s) \<noteq> 0"
    and "SizeOfEntry (gpt s) \<le> bytesPerSector s"
    and "unat (NumberOfEntries (gpt s)) + unat (bytesPerSector s div SizeOfEntry (gpt s)) \<le> 2 ^ 32"
  shows "\<exists>r s'. getGPTPartitions env s = Some (r, s')
           \<and> length (trace s') \<le> length (trace s)
               + entry_sectors (unat (NumberOfEntries (gpt s)))
                   (unat (bytesPerSector s div SizeOfEntry (gpt s)))
           \<and> (r = Inr () \<longrightarrow>
                length (trace s') = length (trace s)
               + entry_sectors (unat (NumberOfEntries (gpt s)))
                   (unat (bytesPerSector s div SizeOfEntry (gpt s))))"
proof -
  let ?e = "unat (bytesPerSector s div SizeOfEntry (gpt s))"
  have "0 < unat (SizeOfEntry (gpt s))" using assms(1) by (simp add: unat_gt_0)
  moreover have "unat (SizeOfEntry (gpt s)) \<le> unat (bytesPerSector s)"
    using assms(2) by (simp add: word_le_nat_alt)
  ultimately have e0: "0 < ?e" by (simp add: unat_div div_greater_zero_iff)
  have i0: "unat (0 :: uint32) = 0 * ?e" by simp
  from sectors_terminate [OF e0 refl assms(3) i0 _ refl, of env "SizeOfEntry (gpt s)"]
  show ?thesis
    using assms(1) by (simp add: getGPTPartitions_def Let_def)
qed

end
